theory Spec2Isabelle
  imports Complex_Main
begin

section \<open>Data model of the session service\<close>

text \<open>
  The types of the service module (\<^verbatim>\<open>src/unnamed/part_003\<close>, imported by the screens as
  \<^verbatim>\<open>../services/firebase\<close>). A TypeScript \<^verbatim>\<open>number\<close> that holds a count of seconds or
  minutes is an \<^typ>\<open>int\<close>; \<^verbatim>\<open>totalHours\<close>, which receives \<^verbatim>\<open>duration / 60\<close>, is a
  \<^typ>\<open>real\<close> (the rounding of IEEE doubles is not modelled). An optional field is an
  \<^typ>\<open>'a option\<close>, with \<^term>\<open>None\<close> for \<^verbatim>\<open>undefined\<close> and \<^verbatim>\<open>null\<close>.
\<close>

datatype ViolationCategory = Minor | Medium | Large | Catastrophic

record Violation =
  userId :: string
  timestamp :: string
  vtype :: string
  durationSeconds :: int
  category :: ViolationCategory

datatype SessionOutcome = Successful | Failed

datatype SessionStatus = Pending | Active | Ended

record Session =
  session_id :: string
  hostId :: string
  participants :: "string list"
  status :: SessionStatus
  duration :: int
  isMarathon :: "bool option"
  violations :: "Violation list"
  createdAt :: "int option"
  startTime :: "int option"
  endTime :: "int option"
  roomCode :: string
  outcome :: "SessionOutcome option"
  failReason :: "string option"
  statsUpdatedFor :: "string list option"

record UserProfile =
  user_id :: string
  username :: string
  email :: string
  totalHours :: real
  profile_violations :: int
  sessionsCompleted :: int
  user_createdAt :: int

section \<open>Violation classifier and outcome evaluator\<close>

text \<open>\<^verbatim>\<open>getViolationCategory\<close> (part_003, lines 320-325): three early returns, in order.\<close>

definition getViolationCategory :: "int \<Rightarrow> ViolationCategory" where
  "getViolationCategory secs =
     (if secs < 30 then Minor
      else if secs < 120 then Medium
      else if secs < 300 then Large
      else Catastrophic)"

text \<open>
  \<^verbatim>\<open>getUserTotalViolationTime\<close> (lines 333-340):
  \<^verbatim>\<open>violations.filter(v => v.userId === userId).reduce((total, v) => total + v.durationSeconds, 0)\<close>.
  JavaScript's \<^verbatim>\<open>reduce\<close> with an initial accumulator is a left fold.
\<close>

definition getUserTotalViolationTime :: "Violation list \<Rightarrow> string \<Rightarrow> int" where
  "getUserTotalViolationTime vs uid =
     foldl (\<lambda>total v. total + durationSeconds v) 0 (filter (\<lambda>v. userId v = uid) vs)"

definition MAX_VIOLATION_SECONDS :: int where
  "MAX_VIOLATION_SECONDS = 300"

text \<open>
  \<^verbatim>\<open>isSessionSuccessful\<close> (lines 349-362): a \<^verbatim>\<open>for ... of\<close> loop over the participants
  that returns \<^verbatim>\<open>false\<close> at the first one whose total reaches the limit, and \<^verbatim>\<open>true\<close>
  after the loop.
\<close>

fun isSessionSuccessful :: "Violation list \<Rightarrow> string list \<Rightarrow> bool" where
  "isSessionSuccessful vs [] = True"
| "isSessionSuccessful vs (participantId # rest) =
     (let totalTime = getUserTotalViolationTime vs participantId
      in if totalTime \<ge> MAX_VIOLATION_SECONDS then False
         else isSessionSuccessful vs rest)"

section \<open>The document store\<close>

text \<open>
  The service keeps its data in two Firestore collections. The \<^verbatim>\<open>sessions\<close> collection
  is a list of documents in the order in which a query returns them (\<^verbatim>\<open>snapshot.docs\<close>);
  a document carries its id, as the service reads it (\<^verbatim>\<open>{ id: doc.id, ...doc.data() }\<close>).
  The \<^verbatim>\<open>users\<close> collection is a map from user ids to profiles. A store request that
  fails for the network or for permissions is outside the model: the only failure of a
  request is the one Firestore documents for \<^verbatim>\<open>updateDoc\<close>, which rejects with
  \<^verbatim>\<open>not-found\<close> when the document does not exist. \<^verbatim>\<open>deleteDoc\<close> of a missing document
  succeeds.
\<close>

datatype error = Error string | FirestoreError string

record Firestore =
  sessions :: "Session list"
  users :: "string \<rightharpoonup> UserProfile"

definition getDoc_sessions :: "Firestore \<Rightarrow> string \<Rightarrow> Session option" where
  "getDoc_sessions db sessionId = find (\<lambda>s. session_id s = sessionId) (sessions db)"

definition updateDoc_sessions ::
  "Firestore \<Rightarrow> string \<Rightarrow> (Session \<Rightarrow> Session) \<Rightarrow> error + Firestore" where
  "updateDoc_sessions db sessionId upd =
     (case getDoc_sessions db sessionId of
        None \<Rightarrow> Inl (FirestoreError ''not-found'')
      | Some _ \<Rightarrow>
          Inr (db\<lparr>sessions :=
                 map (\<lambda>s. if session_id s = sessionId then upd s else s) (sessions db)\<rparr>))"

definition deleteDoc_sessions :: "Firestore \<Rightarrow> string \<Rightarrow> Firestore" where
  "deleteDoc_sessions db sessionId =
     db\<lparr>sessions := filter (\<lambda>s. session_id s \<noteq> sessionId) (sessions db)\<rparr>"

definition addDoc_sessions :: "Firestore \<Rightarrow> Session \<Rightarrow> Firestore" where
  "addDoc_sessions db s = db\<lparr>sessions := sessions db @ [s]\<rparr>"

definition updateDoc_users ::
  "Firestore \<Rightarrow> string \<Rightarrow> (UserProfile \<Rightarrow> UserProfile) \<Rightarrow> error + Firestore" where
  "updateDoc_users db uid upd =
     (case users db uid of
        None \<Rightarrow> Inl (FirestoreError ''not-found'')
      | Some u \<Rightarrow> Inr (db\<lparr>users := (users db)(uid \<mapsto> upd u)\<rparr>))"

text \<open>\<^verbatim>\<open>arrayUnion(x)\<close> adds \<^verbatim>\<open>x\<close> to an array field unless it is already there.\<close>

definition arrayUnion :: "'a list \<Rightarrow> 'a \<Rightarrow> 'a list" where
  "arrayUnion xs x = (if x \<in> set xs then xs else xs @ [x])"

text \<open>
  The query of \<^verbatim>\<open>generateRoomCode\<close> and \<^verbatim>\<open>getSessionByRoomCode\<close>:
  \<^verbatim>\<open>where("roomCode", "==", code), where("status", "in", ["pending", "active"])\<close>.
\<close>

definition query_roomCode :: "Firestore \<Rightarrow> string \<Rightarrow> Session list" where
  "query_roomCode db code =
     filter (\<lambda>s. roomCode s = code \<and> status s \<in> set [Pending, Active]) (sessions db)"

section \<open>Room code generator\<close>

text \<open>\<^verbatim>\<open>Number.prototype.toString\<close> on an integer: its decimal digits, with a minus sign.\<close>

definition digitChar :: "nat \<Rightarrow> char" where
  "digitChar d = ''0123456789'' ! d"

fun natToString :: "nat \<Rightarrow> string" where
  "natToString n =
     (if n < 10 then [digitChar n] else natToString (n div 10) @ [digitChar (n mod 10)])"

declare natToString.simps [simp del]

definition toString :: "int \<Rightarrow> string" where
  "toString i = (if i < 0 then CHR ''-'' # natToString (nat (- i)) else natToString (nat i))"

text \<open>
  \<^verbatim>\<open>generateRoomCode(maxRetries = 10, attempt = 0)\<close> (lines 527-557). The value that
  \<^verbatim>\<open>Math.random()\<close> returns in the call with attempt number \<open>a\<close> is \<open>random a\<close>, a real
  number; the theorems about the codes take it from 0 (included) to 1 (excluded), the
  range of \<^verbatim>\<open>Math.random()\<close>. The code drawn is
  \<^verbatim>\<open>Math.floor(100000 + Math.random() * 900000).toString()\<close>. The recursion ends because
  \<^verbatim>\<open>maxRetries - attempt\<close> decreases.
\<close>

definition drawNumber :: "real \<Rightarrow> int" where
  "drawNumber r = \<lfloor>100000 + r * 900000\<rfloor>"

definition drawCode :: "real \<Rightarrow> string" where
  "drawCode r = toString (drawNumber r)"

function generateRoomCode :: "Firestore \<Rightarrow> (int \<Rightarrow> real) \<Rightarrow> int \<Rightarrow> int \<Rightarrow> error + string" where
  "generateRoomCode db random maxRetries attempt =
     (if attempt \<ge> maxRetries
      then Inl (Error ''Failed to generate unique room code after maximum retries'')
      else
        let code = drawCode (random attempt)
        in if query_roomCode db code \<noteq> []
           then generateRoomCode db random maxRetries (attempt + 1)
           else Inr code)"
  by pat_completeness auto
termination
  by (relation "measure (\<lambda>(db, random, maxRetries, attempt). nat (maxRetries - attempt))") auto

declare generateRoomCode.simps [simp del]

section \<open>Session lifecycle\<close>

text \<open>
  \<^verbatim>\<open>createSession\<close> (lines 266-295). \<open>newId\<close> is the id that \<^verbatim>\<open>addDoc\<close> allocates and
  \<open>now\<close> the value of \<^verbatim>\<open>serverTimestamp()\<close>. The duration is an integer number of minutes,
  which \<^verbatim>\<open>parseInt(duration.toString())\<close> returns unchanged.
\<close>

definition createSession ::
  "Firestore \<Rightarrow> (int \<Rightarrow> real) \<Rightarrow> string \<Rightarrow> int \<Rightarrow> string \<Rightarrow> string list \<Rightarrow> int \<Rightarrow> bool
     \<Rightarrow> error + (string \<times> Firestore)" where
  "createSession db random newId now host participantIds dur marathon =
     (case generateRoomCode db random 10 0 of
        Inl e \<Rightarrow> Inl e
      | Inr code \<Rightarrow>
          Inr (newId,
               addDoc_sessions db
                 \<lparr>session_id = newId,
                  hostId = host,
                  participants = host # participantIds,
                  status = Pending,
                  duration = (if marathon then 0 else dur),
                  isMarathon = Some marathon,
                  violations = [],
                  createdAt = Some now,
                  startTime = None,
                  endTime = None,
                  roomCode = code,
                  outcome = None,
                  failReason = None,
                  statsUpdatedFor = None\<rparr>))"

text \<open>\<^verbatim>\<open>startSession\<close> (lines 303-313): one \<^verbatim>\<open>updateDoc\<close>, nothing is read before it.\<close>

definition startSession :: "Firestore \<Rightarrow> string \<Rightarrow> int \<Rightarrow> error + Firestore" where
  "startSession db sessionId now =
     updateDoc_sessions db sessionId (\<lambda>s. s\<lparr>status := Active, startTime := Some now\<rparr>)"

text \<open>\<^verbatim>\<open>failReason || null\<close>: an absent or empty reason is stored as \<^verbatim>\<open>null\<close>.\<close>

definition or_null :: "string option \<Rightarrow> string option" where
  "or_null r = (case r of None \<Rightarrow> None | Some t \<Rightarrow> if t = [] then None else Some t)"

text \<open>\<^verbatim>\<open>endSession\<close> (lines 372-388) and \<^verbatim>\<open>terminateSession\<close> (lines 396-411).\<close>

definition endSession ::
  "Firestore \<Rightarrow> string \<Rightarrow> SessionOutcome \<Rightarrow> string option \<Rightarrow> int \<Rightarrow> error + Firestore" where
  "endSession db sessionId oc reason now =
     updateDoc_sessions db sessionId
       (\<lambda>s. s\<lparr>status := Ended, endTime := Some now, outcome := Some oc,
              failReason := or_null reason\<rparr>)"

definition terminateSession :: "Firestore \<Rightarrow> string \<Rightarrow> string \<Rightarrow> int \<Rightarrow> error + Firestore" where
  "terminateSession db sessionId reason now =
     updateDoc_sessions db sessionId
       (\<lambda>s. s\<lparr>status := Ended, endTime := Some now, outcome := Some Failed,
              failReason := Some reason\<rparr>)"

text \<open>\<^verbatim>\<open>cancelSession\<close> (lines 742-749): one \<^verbatim>\<open>deleteDoc\<close>.\<close>

definition cancelSession :: "Firestore \<Rightarrow> string \<Rightarrow> error + Firestore" where
  "cancelSession db sessionId = Inr (deleteDoc_sessions db sessionId)"

text \<open>\<^verbatim>\<open>getSessionByRoomCode\<close> (lines 565-583): the first document of the query, if any.\<close>

definition getSessionByRoomCode :: "Firestore \<Rightarrow> string \<Rightarrow> Session option" where
  "getSessionByRoomCode db code =
     (case query_roomCode db code of [] \<Rightarrow> None | d # _ \<Rightarrow> Some d)"

text \<open>\<^verbatim>\<open>joinSessionByCode\<close> (lines 592-625); it returns the session id and the new store.\<close>

definition joinSessionByCode ::
  "Firestore \<Rightarrow> string \<Rightarrow> string \<Rightarrow> error + (string \<times> Firestore)" where
  "joinSessionByCode db code uid =
     (case getSessionByRoomCode db code of
        None \<Rightarrow> Inl (Error ''Session not found. Please check the room code.'')
      | Some s \<Rightarrow>
          if status s = Active then Inl (Error ''Session already started. Cannot join now.'')
          else if status s = Ended then Inl (Error ''Session has ended.'')
          else if uid \<in> set (participants s) then Inr (session_id s, db)
          else
            (case updateDoc_sessions db (session_id s)
                    (\<lambda>d. d\<lparr>participants := arrayUnion (participants d) uid\<rparr>) of
               Inl e \<Rightarrow> Inl e
             | Inr db' \<Rightarrow> Inr (session_id s, db')))"

section \<open>Stats reconciliation\<close>

text \<open>\<^verbatim>\<open>x || 0\<close> on a number.\<close>

definition or_zero :: "'a::zero \<Rightarrow> 'a" where
  "or_zero x = (if x = 0 then 0 else x)"

text \<open>\<^verbatim>\<open>currentSessionData.statsUpdatedFor || []\<close>.\<close>

definition or_empty :: "'a list option \<Rightarrow> 'a list" where
  "or_empty xs = (case xs of None \<Rightarrow> [] | Some l \<Rightarrow> l)"

text \<open>
  \<^verbatim>\<open>updateUserStats\<close> (lines 680-734). The list \<^verbatim>\<open>statsUpdatedFor\<close> is read from the
  stored session; the violations, the outcome and the duration are those of the argument
  \<^verbatim>\<open>sessionData\<close>. An array is truthy, so \<^verbatim>\<open>sessionData.violations || []\<close> is the
  array itself. The function returns without a write when the session or the profile is
  not in the store.
\<close>

definition updateUserStats :: "Firestore \<Rightarrow> string \<Rightarrow> Session \<Rightarrow> error + Firestore" where
  "updateUserStats db uid sessionData =
     (case getDoc_sessions db (session_id sessionData) of
        None \<Rightarrow> Inr db
      | Some currentSessionData \<Rightarrow>
          if uid \<in> set (or_empty (statsUpdatedFor currentSessionData)) then Inr db
          else
            (case users db uid of
               None \<Rightarrow> Inr db
             | Some currentData \<Rightarrow>
                 let userViolationDuration =
                       getUserTotalViolationTime (violations sessionData) uid;
                     isSuccessful = (outcome sessionData = Some Successful)
                 in
                   (case
                      (if isSuccessful
                       then updateDoc_users db uid
                              (\<lambda>u. u\<lparr>totalHours :=
                                        or_zero (totalHours currentData)
                                          + real_of_int (duration sessionData) / 60,
                                     profile_violations :=
                                        or_zero (profile_violations currentData)
                                          + userViolationDuration,
                                     sessionsCompleted :=
                                        or_zero (sessionsCompleted currentData) + 1\<rparr>)
                       else updateDoc_users db uid
                              (\<lambda>u. u\<lparr>profile_violations :=
                                        or_zero (profile_violations currentData)
                                          + userViolationDuration\<rparr>))
                    of
                      Inl e \<Rightarrow> Inl e
                    | Inr db1 \<Rightarrow>
                        updateDoc_sessions db1 (session_id sessionData)
                          (\<lambda>s. s\<lparr>statsUpdatedFor :=
                                   Some (arrayUnion (or_empty (statsUpdatedFor s)) uid)\<rparr>))))"

section \<open>Ending a session from the active-session screen\<close>

text \<open>
  The state of \<^verbatim>\<open>ActiveSessionScreen\<close> that \<^verbatim>\<open>handleEndSession\<close> (lines 241-305) reads:
  the subscribed session, the elapsed seconds, the two completion latches and the route's
  session id.
\<close>

record screen =
  session :: "Session option"
  timer :: int
  isCompleting :: bool
  hasAutoCompleted :: bool
  sessionId :: "string option"

datatype alert_button = CancelButton | EndSessionButton

text \<open>
  \<^verbatim>\<open>handleEndSession\<close> shows a confirmation alert; its \<^verbatim>\<open>End Session\<close> button runs the
  handler that ends the session. The button is pressed in the screen state in which the
  alert was opened. The result is the new screen state and the new store; when
  \<^verbatim>\<open>endSession\<close> throws, the latches are reset and the store is unchanged. The route's
  \<^verbatim>\<open>sessionId\<close> is a Firestore document id, which is never the empty string, so the test
  \<^verbatim>\<open>!sessionId\<close> is the test for an absent id.
\<close>

definition handleEndSession ::
  "screen \<Rightarrow> alert_button \<Rightarrow> Firestore \<Rightarrow> int \<Rightarrow> screen \<times> Firestore" where
  "handleEndSession scr button db now =
     (if hasAutoCompleted scr \<or> isCompleting scr then (scr, db)
      else
        let marathon = (case session scr of None \<Rightarrow> False | Some s \<Rightarrow> isMarathon s = Some True);
            targetSeconds = or_zero (case session scr of None \<Rightarrow> 0 | Some s \<Rightarrow> duration s) * 60;
            isCompletedDuration = (marathon \<or> timer scr \<ge> targetSeconds);
            hasLowViolations =
              isSessionSuccessful
                (case session scr of None \<Rightarrow> [] | Some s \<Rightarrow> violations s)
                (case session scr of None \<Rightarrow> [] | Some s \<Rightarrow> participants s)
        in
          (case button of
             CancelButton \<Rightarrow> (scr, db)
           | EndSessionButton \<Rightarrow>
               if hasAutoCompleted scr \<or> isCompleting scr then (scr, db)
               else
                 let latched = scr\<lparr>hasAutoCompleted := True, isCompleting := True\<rparr>
                 in
                   (case sessionId scr of
                      None \<Rightarrow> (latched, db)
                    | Some sid \<Rightarrow>
                        (case
                           (if marathon then endSession db sid Successful None now
                            else if isCompletedDuration \<and> hasLowViolations
                            then endSession db sid Successful None now
                            else
                              endSession db sid Failed
                                (Some (if \<not> isCompletedDuration
                                       then ''Session ended early''
                                       else ''Total violations exceeded 5 minute limit''))
                                now)
                         of
                           Inl e \<Rightarrow> (scr\<lparr>hasAutoCompleted := False, isCompleting := False\<rparr>, db)
                         | Inr db' \<Rightarrow> (latched, db')))))"

section \<open>The other writers of the sessions collection\<close>

text \<open>
  \<^verbatim>\<open>addViolation\<close> (lines 422-449). \<open>ts\<close> is \<^verbatim>\<open>new Date().toISOString()\<close>. The result is
  \<^verbatim>\<open>{ category, isCatastrophic }\<close> and the new store.
\<close>

definition addViolation ::
  "Firestore \<Rightarrow> string \<Rightarrow> string \<Rightarrow> string \<Rightarrow> int \<Rightarrow> string
     \<Rightarrow> error + ((ViolationCategory \<times> bool) \<times> Firestore)" where
  "addViolation db sid uid ty secs ts =
     (let cat = getViolationCategory secs
      in case updateDoc_sessions db sid
                (\<lambda>s. s\<lparr>violations :=
                         arrayUnion (violations s)
                           \<lparr>userId = uid, timestamp = ts, vtype = ty, durationSeconds = secs,
                            category = cat\<rparr>\<rparr>) of
           Inl e \<Rightarrow> Inl e
         | Inr db' \<Rightarrow> Inr ((cat, cat = Catastrophic), db'))"

text \<open>
  \<^verbatim>\<open>leaveSession\<close> (lines 787-809): the participants that were read, without the user,
  are written back; a missing session is not an error.
\<close>

definition leaveSession :: "Firestore \<Rightarrow> string \<Rightarrow> string \<Rightarrow> error + Firestore" where
  "leaveSession db sid uid =
     (case getDoc_sessions db sid of
        None \<Rightarrow> Inr db
      | Some sessionData \<Rightarrow>
          updateDoc_sessions db sid
            (\<lambda>s. s\<lparr>participants := filter (\<lambda>i. i \<noteq> uid) (participants sessionData)\<rparr>))"

text \<open>
  One write of the service to the store. The session writers are the functions above;
  \<^verbatim>\<open>wipeUserHistory\<close> is a sequence of \<^verbatim>\<open>deleteDoc\<close> on sessions, which are the steps of
  \<^verbatim>\<open>cancelSession\<close>, followed by a write to the user's profile. The writes that touch
  only the \<^verbatim>\<open>users\<close> collection (\<^verbatim>\<open>signup\<close>, \<^verbatim>\<open>signInWithGoogle\<close>, the reset of
  \<^verbatim>\<open>wipeUserHistory\<close>) are one rule, which allows any change of that collection.
\<close>

inductive step :: "Firestore \<Rightarrow> Firestore \<Rightarrow> bool" where
  step_create:
    "createSession db random newId now host participantIds dur marathon = Inr (sid, db')
       \<Longrightarrow> step db db'"
| step_start: "startSession db sid now = Inr db' \<Longrightarrow> step db db'"
| step_end: "endSession db sid oc reason now = Inr db' \<Longrightarrow> step db db'"
| step_terminate: "terminateSession db sid why now = Inr db' \<Longrightarrow> step db db'"
| step_violation: "addViolation db sid uid ty secs ts = Inr (res, db') \<Longrightarrow> step db db'"
| step_join: "joinSessionByCode db code uid = Inr (sid, db') \<Longrightarrow> step db db'"
| step_leave: "leaveSession db sid uid = Inr db' \<Longrightarrow> step db db'"
| step_cancel: "cancelSession db sid = Inr db' \<Longrightarrow> step db db'"
| step_stats: "updateUserStats db uid sessionData = Inr db' \<Longrightarrow> step db db'"
| step_users: "sessions db' = sessions db \<Longrightarrow> step db db'"

text \<open>The stores that the service can build from the empty store.\<close>

inductive reachable :: "Firestore \<Rightarrow> bool" where
  reachable_empty: "reachable \<lparr>sessions = [], users = Map.empty\<rparr>"
| reachable_step: "reachable db \<Longrightarrow> step db db' \<Longrightarrow> reachable db'"

section \<open>Error kinds and example data\<close>

abbreviation NotFound :: error where
  "NotFound \<equiv> Error ''Session not found. Please check the room code.''"
abbreviation AlreadyStarted :: error where
  "AlreadyStarted \<equiv> Error ''Session already started. Cannot join now.''"
abbreviation SessionEnded :: error where
  "SessionEnded \<equiv> Error ''Session has ended.''"

abbreviation ExhaustedRetries :: error where
  "ExhaustedRetries \<equiv> Error ''Failed to generate unique room code after maximum retries''"

definition ex_session :: Session where
  "ex_session =
     \<lparr>session_id = ''s1'', hostId = ''host'', participants = [''host''], status = Active,
      duration = 25, isMarathon = Some False, violations = [], createdAt = Some 1,
      startTime = Some 2, endTime = None, roomCode = ''123456'', outcome = None,
      failReason = None, statsUpdatedFor = None\<rparr>"

definition ex_db :: "Session \<Rightarrow> Firestore" where
  "ex_db s = \<lparr>sessions = [s], users = Map.empty\<rparr>"

definition ex_screen :: "Session \<Rightarrow> int \<Rightarrow> screen" where
  "ex_screen s t =
     \<lparr>session = Some s, timer = t, isCompleting = False, hasAutoCompleted = False,
      sessionId = Some ''s1''\<rparr>"

definition ex_violations :: "Violation list" where
  "ex_violations =
     [\<lparr>userId = ''host'', timestamp = ''t1'', vtype = ''app-switch'', durationSeconds = 200,
       category = Large\<rparr>,
      \<lparr>userId = ''host'', timestamp = ''t2'', vtype = ''app-switch'', durationSeconds = 150,
       category = Large\<rparr>]"



text \<open>A store in which every code from 100000 to 999999 belongs to a pending session.\<close>

definition ex_db_full :: Firestore where
  "ex_db_full =
     \<lparr>sessions =
        map (\<lambda>n. ex_session\<lparr>session_id := toString (int n), status := Pending,
                              roomCode := toString (int n)\<rparr>)
          [100000 ..< 1000000],
      users = Map.empty\<rparr>"

text \<open>A marathon session, as \<^verbatim>\<open>createSession\<close> stores it, and a profile for its host.\<close>

definition ex_marathon :: Session where
  "ex_marathon =
     \<lparr>session_id = ''m1'', hostId = ''host'', participants = [''host''], status = Pending,
      duration = 0, isMarathon = Some True, violations = [], createdAt = Some 1,
      startTime = None, endTime = None, roomCode = ''100000'', outcome = None,
      failReason = None, statsUpdatedFor = None\<rparr>"

definition ex_profile :: UserProfile where
  "ex_profile =
     \<lparr>user_id = ''host'', username = ''Host'', email = ''host@example.org'', totalHours = 2,
      profile_violations = 40, sessionsCompleted = 3, user_createdAt = 0\<rparr>"

definition ex_store :: "Session \<Rightarrow> Firestore" where
  "ex_store s = \<lparr>sessions = [s], users = [''host'' \<mapsto> ex_profile]\<rparr>"

text \<open>
  Violations of several users in one list: \<^verbatim>\<open>u1\<close> has 200 and 100 seconds, \<^verbatim>\<open>u2\<close> has
  1000 seconds in between, and \<^verbatim>\<open>u0\<close> has none.
\<close>

definition ex_mixed :: "Violation list" where
  "ex_mixed =
     [\<lparr>userId = ''u1'', timestamp = ''t1'', vtype = ''app-switch'', durationSeconds = 200,
       category = Large\<rparr>,
      \<lparr>userId = ''u2'', timestamp = ''t2'', vtype = ''app-switch'', durationSeconds = 1000,
       category = Catastrophic\<rparr>,
      \<lparr>userId = ''u1'', timestamp = ''t3'', vtype = ''app-switch'', durationSeconds = 100,
       category = Medium\<rparr>]"

text \<open>Violations of the host (15 seconds) and of a guest (100 seconds) in one session.\<close>

definition ex_host_guest :: "Violation list" where
  "ex_host_guest =
     [\<lparr>userId = ''guest'', timestamp = ''t1'', vtype = ''app-switch'', durationSeconds = 100,
       category = Medium\<rparr>,
      \<lparr>userId = ''host'', timestamp = ''t2'', vtype = ''app-switch'', durationSeconds = 15,
       category = Minor\<rparr>]"

section \<open>Properties of the classifier and the evaluator\<close>

lemma foldl_add_sum_list:
  "foldl (\<lambda>total v. total + f v) a xs = a + sum_list (map f xs)"
  for a :: int
  by (induction xs arbitrary: a) simp_all

lemma getUserTotalViolationTime_sum:
  "getUserTotalViolationTime vs uid =
     sum_list (map durationSeconds (filter (\<lambda>v. userId v = uid) vs))"
  by (simp add: getUserTotalViolationTime_def foldl_add_sum_list)

lemma isSessionSuccessful_iff:
  "isSessionSuccessful vs ps \<longleftrightarrow> (\<forall>p \<in> set ps. getUserTotalViolationTime vs p < 300)"
  by (induction ps) (auto simp: MAX_VIOLATION_SECONDS_def Let_def)

lemma getUserTotalViolationTime_Nil: "getUserTotalViolationTime [] uid = 0"
  by (simp add: getUserTotalViolationTime_def)

text \<open>
  Claim C1. \<^verbatim>\<open>getUserTotalViolationTime(violations, id)\<close> is the sum of \<^verbatim>\<open>durationSeconds\<close>
  over the violations whose \<^verbatim>\<open>userId\<close> is \<^verbatim>\<open>id\<close>, and
  \<^verbatim>\<open>isSessionSuccessful(violations, participants)\<close> is true exactly when, for every
  participant, that sum of the participant's own violations is strictly below 300; the
  violations of other users do not count against a participant. Hence it is true for an
  empty participant list and for an empty violation list, and it is false as soon as some
  participant's violations add up to exactly 300 seconds, whatever the size of the single
  violations.
\<close>

theorem isSessionSuccessful_spec:
  "(isSessionSuccessful vs ps \<longleftrightarrow>
      (\<forall>p \<in> set ps.
         sum_list (map durationSeconds (filter (\<lambda>v. userId v = p) vs)) < 300))
   \<and> getUserTotalViolationTime vs p =
        sum_list (map durationSeconds (filter (\<lambda>v. userId v = p) vs))
   \<and> (isSessionSuccessful vs ps \<longleftrightarrow> (\<forall>p \<in> set ps. getUserTotalViolationTime vs p < 300))
   \<and> isSessionSuccessful vs []
   \<and> isSessionSuccessful [] ps
   \<and> (p \<in> set ps \<and> getUserTotalViolationTime vs p = 300 \<longrightarrow> \<not> isSessionSuccessful vs ps)"
proof -
  have "isSessionSuccessful vs ps \<longleftrightarrow>
      (\<forall>p \<in> set ps.
         sum_list (map durationSeconds (filter (\<lambda>v. userId v = p) vs)) < 300)"
    by (simp add: isSessionSuccessful_iff getUserTotalViolationTime_sum)
  moreover have "isSessionSuccessful [] ps"
    by (simp add: isSessionSuccessful_iff getUserTotalViolationTime_Nil)
  moreover have "p \<in> set ps \<and> getUserTotalViolationTime vs p = 300 \<longrightarrow> \<not> isSessionSuccessful vs ps"
    unfolding isSessionSuccessful_iff by force
  ultimately show ?thesis
    by (simp add: isSessionSuccessful_iff getUserTotalViolationTime_sum)
qed

text \<open>
  The instance of C1 at the violations of three users: \<^verbatim>\<open>u1\<close> has 200 and 100 seconds,
  neither of them catastrophic, and a total of exactly 300; \<^verbatim>\<open>u2\<close> has 1000 seconds;
  \<^verbatim>\<open>u0\<close> has none and a total of 0. The session of \<^verbatim>\<open>u0\<close> alone is successful, whatever
  the others did; the session of \<^verbatim>\<open>u0\<close> and \<^verbatim>\<open>u1\<close> is not.
\<close>

theorem isSessionSuccessful_spec_witness:
  "getViolationCategory 200 = Large \<and> getViolationCategory 100 = Medium
   \<and> getUserTotalViolationTime ex_mixed ''u0'' = 0
   \<and> getUserTotalViolationTime ex_mixed ''u1'' = 300
   \<and> getUserTotalViolationTime ex_mixed ''u2'' = 1000
   \<and> isSessionSuccessful ex_mixed [''u0'']
   \<and> \<not> isSessionSuccessful ex_mixed [''u0'', ''u1'']
   \<and> \<not> isSessionSuccessful ex_mixed [''u2'']"
proof -
  have t0: "getUserTotalViolationTime ex_mixed ''u0'' = 0"
    using isSessionSuccessful_spec [of ex_mixed "[]" "''u0''"] by (simp add: ex_mixed_def)
  have t1: "getUserTotalViolationTime ex_mixed ''u1'' = 300"
    using isSessionSuccessful_spec [of ex_mixed "[]" "''u1''"] by (simp add: ex_mixed_def)
  have t2: "getUserTotalViolationTime ex_mixed ''u2'' = 1000"
    using isSessionSuccessful_spec [of ex_mixed "[]" "''u2''"] by (simp add: ex_mixed_def)
  have ok: "isSessionSuccessful ex_mixed [''u0'']"
    using isSessionSuccessful_spec [of ex_mixed "[''u0'']" "''u0''"] t0 by simp
  have mem: "''u1'' \<in> set [''u0'', ''u1'']"
    by simp
  from isSessionSuccessful_spec [of ex_mixed "[''u0'', ''u1'']" "''u1''"] t1 mem
  have ko: "\<not> isSessionSuccessful ex_mixed [''u0'', ''u1'']"
    by blast
  have ko2: "\<not> isSessionSuccessful ex_mixed [''u2'']"
    using isSessionSuccessful_spec [of ex_mixed "[''u2'']" "''u2''"] t2 by simp
  from t0 t1 t2 ok ko ko2 show ?thesis
    by (simp add: getViolationCategory_def)
qed

text \<open>
  Claim C2. The classifier is a total function of the duration, and its four categories
  are cut at 30, 120 and 300 seconds with half-open intervals: minor below 30, medium from
  30 up to 119, large from 120 up to 299, catastrophic from 300 on. The six boundary values
  of the specification are classified accordingly.
\<close>

theorem getViolationCategory_thresholds:
  "(getViolationCategory d = Minor \<longleftrightarrow> d < 30)
   \<and> (getViolationCategory d = Medium \<longleftrightarrow> 30 \<le> d \<and> d < 120)
   \<and> (getViolationCategory d = Large \<longleftrightarrow> 120 \<le> d \<and> d < 300)
   \<and> (getViolationCategory d = Catastrophic \<longleftrightarrow> 300 \<le> d)
   \<and> getViolationCategory 29 = Minor \<and> getViolationCategory 30 = Medium
   \<and> getViolationCategory 119 = Medium \<and> getViolationCategory 120 = Large
   \<and> getViolationCategory 299 = Large \<and> getViolationCategory 300 = Catastrophic"
  by (simp add: getViolationCategory_def)

section \<open>Lemmas about the store\<close>

lemmas ex_defs = ex_session_def ex_db_def ex_screen_def ex_violations_def

lemma find_map_upd:
  assumes "\<And>s. session_id (upd s) = session_id s"
  shows "find (\<lambda>s. session_id s = sid) (map (\<lambda>s. if session_id s = sid then upd s else s) xs)
     = map_option upd (find (\<lambda>s. session_id s = sid) xs)"
  by (induction xs) (auto simp: assms)

lemma getDoc_updateDoc:
  assumes "getDoc_sessions db sid = Some d" and "\<And>s. session_id (upd s) = session_id s"
  shows "\<exists>db'. updateDoc_sessions db sid upd = Inr db' \<and> getDoc_sessions db' sid = Some (upd d)"
  using assms by (simp add: updateDoc_sessions_def getDoc_sessions_def find_map_upd)

lemma getDoc_None_filter:
  "getDoc_sessions db sid = None \<Longrightarrow> deleteDoc_sessions db sid = db"
  by (simp add: getDoc_sessions_def deleteDoc_sessions_def find_None_iff filter_id_conv)

lemma getDoc_deleteDoc: "getDoc_sessions (deleteDoc_sessions db sid) sid = None"
  by (simp add: getDoc_sessions_def deleteDoc_sessions_def find_None_iff)

section \<open>Ending a session voluntarily\<close>

lemma endSession_stored:
  assumes "getDoc_sessions db sid = Some d"
  shows "\<exists>db'. endSession db sid oc r now = Inr db'
           \<and> getDoc_sessions db' sid =
               Some (d\<lparr>status := Ended, endTime := Some now, outcome := Some oc,
                       failReason := or_null r\<rparr>)"
  unfolding endSession_def by (rule getDoc_updateDoc[OF assms]) simp

text \<open>
  Claim C3. The host presses \<^verbatim>\<open>End Session\<close> and confirms, no completion is under way,
  and the session shown on the screen is stored under the screen's session id. Then the
  stored session is ended, and its outcome is: successful for a marathon session; failed
  with reason \<^verbatim>\<open>Session ended early\<close> for a session that is not a marathon and whose
  timer is below \<^verbatim>\<open>duration * 60\<close>, whatever the violations; and for a session that is
  not a marathon and has reached its duration, successful exactly when
  \<^verbatim>\<open>isSessionSuccessful(violations, participants)\<close> holds, otherwise failed with reason
  \<^verbatim>\<open>Total violations exceeded 5 minute limit\<close>.
\<close>

theorem handleEndSession_outcome:
  assumes "\<not> hasAutoCompleted scr" and "\<not> isCompleting scr"
      and "session scr = Some s" and "sessionId scr = Some sid"
      and "getDoc_sessions db sid = Some d"
  shows "\<exists>db'. handleEndSession scr EndSessionButton db now
                 = (scr\<lparr>hasAutoCompleted := True, isCompleting := True\<rparr>, db')
           \<and> getDoc_sessions db' sid =
               Some (d\<lparr>status := Ended, endTime := Some now,
                       outcome := Some
                         (if isMarathon s = Some True then Successful
                          else if timer scr < duration s * 60 then Failed
                          else if isSessionSuccessful (violations s) (participants s)
                          then Successful else Failed),
                       failReason :=
                         (if isMarathon s = Some True then None
                          else if timer scr < duration s * 60 then Some ''Session ended early''
                          else if isSessionSuccessful (violations s) (participants s)
                          then None
                          else Some ''Total violations exceeded 5 minute limit'')\<rparr>)"
  using assms(1-4) endSession_stored[OF assms(5), of Successful None now]
    endSession_stored[OF assms(5), of Failed "Some ''Session ended early''" now]
    endSession_stored[OF assms(5), of Failed "Some ''Total violations exceeded 5 minute limit''" now]
  by (auto simp: handleEndSession_def Let_def or_null_def or_zero_def)

text \<open>
  Four runs of C3 on a 25 minute session: as a marathon; ended at 1499 seconds with 350
  seconds of violations; ended at 1500 seconds without violations; ended at 1500 seconds
  with the 350 seconds of violations.
\<close>

theorem handleEndSession_outcome_witness:
  "getDoc_sessions
     (snd (handleEndSession (ex_screen (ex_session\<lparr>isMarathon := Some True, duration := 0\<rparr>) 10)
             EndSessionButton (ex_db (ex_session\<lparr>isMarathon := Some True, duration := 0\<rparr>)) 99)) ''s1''
     = Some (ex_session\<lparr>isMarathon := Some True, duration := 0, status := Ended,
               endTime := Some 99, outcome := Some Successful, failReason := None\<rparr>)
   \<and> getDoc_sessions
     (snd (handleEndSession (ex_screen (ex_session\<lparr>violations := ex_violations\<rparr>) 1499)
             EndSessionButton (ex_db (ex_session\<lparr>violations := ex_violations\<rparr>)) 99)) ''s1''
     = Some (ex_session\<lparr>violations := ex_violations, status := Ended, endTime := Some 99, outcome := Some Failed,
               failReason := Some ''Session ended early''\<rparr>)
   \<and> getDoc_sessions
     (snd (handleEndSession (ex_screen ex_session 1500) EndSessionButton (ex_db ex_session) 99)) ''s1''
     = Some (ex_session\<lparr>status := Ended, endTime := Some 99, outcome := Some Successful,
               failReason := None\<rparr>)
   \<and> getDoc_sessions
     (snd (handleEndSession (ex_screen (ex_session\<lparr>violations := ex_violations\<rparr>) 1500)
             EndSessionButton (ex_db (ex_session\<lparr>violations := ex_violations\<rparr>)) 99)) ''s1''
     = Some (ex_session\<lparr>violations := ex_violations, status := Ended, endTime := Some 99, outcome := Some Failed,
               failReason := Some ''Total violations exceeded 5 minute limit''\<rparr>)"
proof -
  let ?m = "ex_session\<lparr>isMarathon := Some True, duration := 0\<rparr>"
  let ?v = "ex_session\<lparr>violations := ex_violations\<rparr>"
  have g: "getDoc_sessions (ex_db ex_session) ''s1'' = Some ex_session"
          "getDoc_sessions (ex_db ?m) ''s1'' = Some ?m"
          "getDoc_sessions (ex_db ?v) ''s1'' = Some ?v"
    by (simp_all add: ex_defs getDoc_sessions_def)
  have bad: "\<not> isSessionSuccessful ex_violations [''host'']"
    by (simp add: ex_defs getUserTotalViolationTime_def MAX_VIOLATION_SECONDS_def)
  note a = handleEndSession_outcome [of "ex_screen ?m 10" ?m "''s1''" "ex_db ?m" ?m 99]
  note b = handleEndSession_outcome [of "ex_screen ?v 1499" ?v "''s1''" "ex_db ?v" ?v 99]
  note c = handleEndSession_outcome [of "ex_screen ex_session 1500" ex_session "''s1''" "ex_db ex_session" ex_session 99]
  note d = handleEndSession_outcome [of "ex_screen ?v 1500" ?v "''s1''" "ex_db ?v" ?v 99]
  have a': "getDoc_sessions (snd (handleEndSession (ex_screen ?m 10) EndSessionButton (ex_db ?m) 99)) ''s1''
     = Some (?m\<lparr>status := Ended, endTime := Some 99, outcome := Some Successful, failReason := None\<rparr>)"
    using a g(2) by (auto simp: ex_screen_def ex_session_def)
  have b': "getDoc_sessions (snd (handleEndSession (ex_screen ?v 1499) EndSessionButton (ex_db ?v) 99)) ''s1''
     = Some (?v\<lparr>status := Ended, endTime := Some 99, outcome := Some Failed,
               failReason := Some ''Session ended early''\<rparr>)"
    using b g(3) by (auto simp: ex_screen_def ex_session_def)
  have c': "getDoc_sessions (snd (handleEndSession (ex_screen ex_session 1500) EndSessionButton (ex_db ex_session) 99)) ''s1''
     = Some (ex_session\<lparr>status := Ended, endTime := Some 99, outcome := Some Successful,
               failReason := None\<rparr>)"
    using c g(1)
    by (auto simp: ex_screen_def ex_session_def getUserTotalViolationTime_def
        MAX_VIOLATION_SECONDS_def)
  have d': "getDoc_sessions (snd (handleEndSession (ex_screen ?v 1500) EndSessionButton (ex_db ?v) 99)) ''s1''
     = Some (?v\<lparr>status := Ended, endTime := Some 99, outcome := Some Failed,
               failReason := Some ''Total violations exceeded 5 minute limit''\<rparr>)"
    using d g(3) bad by (auto simp: ex_screen_def ex_session_def)
  from a' b' c' d' show ?thesis by simp
qed

section \<open>Lifecycle transitions and the session status\<close>

text \<open>
  The claim C4, that a transition applied to a session in the wrong state reports an error
  and leaves the session unchanged, fails: \<^verbatim>\<open>startSession\<close> restarts an ended session,
  \<^verbatim>\<open>endSession\<close> and \<^verbatim>\<open>terminateSession\<close> end a pending session, and
  \<^verbatim>\<open>cancelSession\<close> deletes an active session.
\<close>

theorem lifecycle_guard_counterexample:
  "status (ex_session\<lparr>status := Ended\<rparr>) \<noteq> Pending
   \<and> startSession (ex_db (ex_session\<lparr>status := Ended\<rparr>)) ''s1'' 7
       = Inr (ex_db (ex_session\<lparr>status := Active, startTime := Some 7\<rparr>))
   \<and> status (ex_session\<lparr>status := Pending\<rparr>) \<noteq> Active
   \<and> endSession (ex_db (ex_session\<lparr>status := Pending\<rparr>)) ''s1'' Successful None 7
       = Inr (ex_db (ex_session\<lparr>status := Ended, endTime := Some 7, outcome := Some Successful\<rparr>))
   \<and> terminateSession (ex_db (ex_session\<lparr>status := Pending\<rparr>)) ''s1'' ''away'' 7
       = Inr (ex_db (ex_session\<lparr>status := Ended, endTime := Some 7, outcome := Some Failed,
                                 failReason := Some ''away''\<rparr>))
   \<and> status ex_session \<noteq> Pending
   \<and> cancelSession (ex_db ex_session) ''s1'' = Inr \<lparr>sessions = [], users = Map.empty\<rparr>"
  by (simp add: ex_defs startSession_def endSession_def terminateSession_def cancelSession_def
      updateDoc_sessions_def getDoc_sessions_def deleteDoc_sessions_def or_null_def)

text \<open>
  Claim C4, as amended. No transition reads the status. On a stored session in any status,
  \<^verbatim>\<open>startSession\<close> sets the status to active and stamps the start time,
  \<^verbatim>\<open>endSession\<close> and \<^verbatim>\<open>terminateSession\<close> set the status to ended with the end
  time, the outcome and the reason, and \<^verbatim>\<open>cancelSession\<close> deletes the session. The
  three updates report an error, and change nothing, only when no session has the given id;
  cancelling such an id succeeds and changes nothing.
\<close>

theorem lifecycle_transitions_unguarded:
  "(getDoc_sessions db sid = Some d \<longrightarrow>
      (\<exists>db'. startSession db sid now = Inr db'
           \<and> getDoc_sessions db' sid = Some (d\<lparr>status := Active, startTime := Some now\<rparr>))
    \<and> (\<exists>db'. endSession db sid oc r now = Inr db'
           \<and> getDoc_sessions db' sid =
               Some (d\<lparr>status := Ended, endTime := Some now, outcome := Some oc,
                       failReason := or_null r\<rparr>))
    \<and> (\<exists>db'. terminateSession db sid reason now = Inr db'
           \<and> getDoc_sessions db' sid =
               Some (d\<lparr>status := Ended, endTime := Some now, outcome := Some Failed,
                       failReason := Some reason\<rparr>))
    \<and> (\<exists>db'. cancelSession db sid = Inr db' \<and> getDoc_sessions db' sid = None))
   \<and> (getDoc_sessions db sid = None \<longrightarrow>
        startSession db sid now = Inl (FirestoreError ''not-found'')
      \<and> endSession db sid oc r now = Inl (FirestoreError ''not-found'')
      \<and> terminateSession db sid reason now = Inl (FirestoreError ''not-found'')
      \<and> cancelSession db sid = Inr db)"
proof (intro conjI impI)
  assume g: "getDoc_sessions db sid = Some d"
  show "\<exists>db'. startSession db sid now = Inr db'
           \<and> getDoc_sessions db' sid = Some (d\<lparr>status := Active, startTime := Some now\<rparr>)"
    unfolding startSession_def by (rule getDoc_updateDoc[OF g]) simp
  show "\<exists>db'. endSession db sid oc r now = Inr db'
           \<and> getDoc_sessions db' sid =
               Some (d\<lparr>status := Ended, endTime := Some now, outcome := Some oc,
                       failReason := or_null r\<rparr>)"
    unfolding endSession_def by (rule getDoc_updateDoc[OF g]) simp
  show "\<exists>db'. terminateSession db sid reason now = Inr db'
           \<and> getDoc_sessions db' sid =
               Some (d\<lparr>status := Ended, endTime := Some now, outcome := Some Failed,
                       failReason := Some reason\<rparr>)"
    unfolding terminateSession_def by (rule getDoc_updateDoc[OF g]) simp
  show "\<exists>db'. cancelSession db sid = Inr db' \<and> getDoc_sessions db' sid = None"
    by (simp add: cancelSession_def getDoc_deleteDoc)
next
  assume n: "getDoc_sessions db sid = None"
  show "startSession db sid now = Inl (FirestoreError ''not-found'')"
    using n by (simp add: startSession_def updateDoc_sessions_def)
  show "endSession db sid oc r now = Inl (FirestoreError ''not-found'')"
    using n by (simp add: endSession_def updateDoc_sessions_def)
  show "terminateSession db sid reason now = Inl (FirestoreError ''not-found'')"
    using n by (simp add: terminateSession_def updateDoc_sessions_def)
  show "cancelSession db sid = Inr db"
    using n by (simp add: cancelSession_def getDoc_None_filter)
qed

text \<open>
  C4 as amended on an ended session \<^verbatim>\<open>s1\<close>, which is restarted and can be cancelled, and
  on the missing id \<^verbatim>\<open>s2\<close>.
\<close>

theorem lifecycle_transitions_unguarded_witness:
  "getDoc_sessions (ex_db (ex_session\<lparr>status := Ended\<rparr>)) ''s1'' = Some (ex_session\<lparr>status := Ended\<rparr>)
   \<and> (\<exists>db'. startSession (ex_db (ex_session\<lparr>status := Ended\<rparr>)) ''s1'' 7 = Inr db'
         \<and> map_option status (getDoc_sessions db' ''s1'') = Some Active)
   \<and> (\<exists>db'. cancelSession (ex_db (ex_session\<lparr>status := Ended\<rparr>)) ''s1'' = Inr db'
         \<and> getDoc_sessions db' ''s1'' = None)
   \<and> getDoc_sessions (ex_db ex_session) ''s2'' = None
   \<and> startSession (ex_db ex_session) ''s2'' 7 = Inl (FirestoreError ''not-found'')
   \<and> cancelSession (ex_db ex_session) ''s2'' = Inr (ex_db ex_session)"
proof -
  have g: "getDoc_sessions (ex_db (ex_session\<lparr>status := Ended\<rparr>)) ''s1'' = Some (ex_session\<lparr>status := Ended\<rparr>)"
    by (simp add: ex_defs getDoc_sessions_def)
  have n: "getDoc_sessions (ex_db ex_session) ''s2'' = None"
    by (simp add: ex_defs getDoc_sessions_def)
  from lifecycle_transitions_unguarded
         [of "ex_db (ex_session\<lparr>status := Ended\<rparr>)" "''s1''" "ex_session\<lparr>status := Ended\<rparr>" 7 Successful None "''x''"] g
  have 1: "(\<exists>db'. startSession (ex_db (ex_session\<lparr>status := Ended\<rparr>)) ''s1'' 7 = Inr db'
         \<and> map_option status (getDoc_sessions db' ''s1'') = Some Active)"
     and 2: "(\<exists>db'. cancelSession (ex_db (ex_session\<lparr>status := Ended\<rparr>)) ''s1'' = Inr db'
         \<and> getDoc_sessions db' ''s1'' = None)"
    by auto
  from lifecycle_transitions_unguarded [of "ex_db ex_session" "''s2''" ex_session 7 Successful None "''x''"] n
  have 3: "startSession (ex_db ex_session) ''s2'' 7 = Inl (FirestoreError ''not-found'')"
          "cancelSession (ex_db ex_session) ''s2'' = Inr (ex_db ex_session)"
    by auto
  from g n 1 2 3 show ?thesis by blast
qed

section \<open>Joining by room code\<close>

lemma query_roomCode_Cons:
  assumes "query_roomCode db code = s # rest"
  shows "s \<in> set (sessions db)" and "roomCode s = code" and "status s = Pending \<or> status s = Active"
proof -
  from assms have "s \<in> set (query_roomCode db code)" by simp
  then show "s \<in> set (sessions db)" and "roomCode s = code"
    and "status s = Pending \<or> status s = Active"
    by (auto simp: query_roomCode_def)
qed

lemma member_getDoc:
  "s \<in> set (sessions db) \<Longrightarrow> \<exists>d. getDoc_sessions db (session_id s) = Some d"
  by (cases "getDoc_sessions db (session_id s)") (auto simp: getDoc_sessions_def find_None_iff)

lemma query_roomCode_map:
  assumes "\<And>d. roomCode (upd d) = roomCode d" and "\<And>d. status (upd d) = status d"
  shows "query_roomCode (db\<lparr>sessions := map (\<lambda>s. if session_id s = sid then upd s else s) (sessions db)\<rparr>) code
       = map (\<lambda>s. if session_id s = sid then upd s else s) (query_roomCode db code)"
  unfolding query_roomCode_def
  by (induction "sessions db" arbitrary: db) (auto simp: filter_map o_def assms intro!: filter_cong)


lemma joinSessionByCode_append:
  assumes q: "query_roomCode db code = s # rest" and p: "status s = Pending"
      and u: "uid \<notin> set (participants s)"
  shows "joinSessionByCode db code uid =
           Inr (session_id s,
                db\<lparr>sessions := map (\<lambda>d. if session_id d = session_id s
                                           then d\<lparr>participants := arrayUnion (participants d) uid\<rparr>
                                           else d) (sessions db)\<rparr>)"
proof -
  from query_roomCode_Cons(1)[OF q] obtain d where "getDoc_sessions db (session_id s) = Some d"
    using member_getDoc by blast
  then show ?thesis
    using q p u by (simp add: joinSessionByCode_def getSessionByRoomCode_def updateDoc_sessions_def)
qed

lemma joinSessionByCode_second:
  assumes "joinSessionByCode db code uid = Inr (i, db')"
  shows "joinSessionByCode db' code uid = Inr (i, db')"
proof (cases "query_roomCode db code")
  case Nil
  with assms show ?thesis
    by (simp add: joinSessionByCode_def getSessionByRoomCode_def)
next
  case (Cons s rest)
  show ?thesis
  proof (cases "status s = Pending \<and> uid \<notin> set (participants s)")
    case False
    with assms Cons query_roomCode_Cons(3)[OF Cons] show ?thesis
      by (auto simp: joinSessionByCode_def getSessionByRoomCode_def split: if_splits)
  next
    case True
    let ?upd = "\<lambda>d. d\<lparr>participants := arrayUnion (participants d) uid\<rparr>"
    from joinSessionByCode_append[OF Cons, of uid] True assms
    have i: "i = session_id s"
      and db': "db' = db\<lparr>sessions := map (\<lambda>d. if session_id d = session_id s then ?upd d else d) (sessions db)\<rparr>"
      by auto
    have "query_roomCode db' code = map (\<lambda>d. if session_id d = session_id s then ?upd d else d) (query_roomCode db code)"
      unfolding db' by (rule query_roomCode_map) simp_all
    with Cons have "query_roomCode db' code = ?upd s # map (\<lambda>d. if session_id d = session_id s then ?upd d else d) rest"
      by simp
    then show ?thesis
      using True i by (simp add: joinSessionByCode_def getSessionByRoomCode_def arrayUnion_def)
  qed
qed

text \<open>
  Claim C5, as amended. \<^verbatim>\<open>joinSessionByCode\<close> looks only at the pending and active
  sessions with the room code. It fails with the not-found error exactly when there is none,
  that is when every session with the code has ended; the error \<^verbatim>\<open>Session has ended.\<close>
  is never returned. When the first such session is active it fails with the
  already-started error. When it is pending and the user is a participant, the session id
  is returned and the store is unchanged; when the user is not a participant, the session id
  is returned and the user is appended to the participants. A second call with the same
  code and user, in the store the first call left, returns the same id and leaves that
  store unchanged. The two errors that occur differ.
\<close>

theorem joinSessionByCode_spec:
  "(joinSessionByCode db code uid = Inl NotFound
      \<longleftrightarrow> (\<forall>s \<in> set (sessions db). roomCode s = code \<longrightarrow> status s = Ended))
   \<and> (\<forall>s rest. query_roomCode db code = s # rest \<longrightarrow>
         (status s = Active \<longrightarrow> joinSessionByCode db code uid = Inl AlreadyStarted)
       \<and> (status s = Pending \<and> uid \<in> set (participants s) \<longrightarrow>
             joinSessionByCode db code uid = Inr (session_id s, db))
       \<and> (status s = Pending \<and> uid \<notin> set (participants s) \<longrightarrow>
             (\<exists>db'. joinSessionByCode db code uid = Inr (session_id s, db')
                \<and> (\<exists>rest'. query_roomCode db' code
                              = s\<lparr>participants := participants s @ [uid]\<rparr> # rest'))))
   \<and> (\<forall>i db'. joinSessionByCode db code uid = Inr (i, db') \<longrightarrow>
         joinSessionByCode db' code uid = Inr (i, db'))
   \<and> joinSessionByCode db code uid \<noteq> Inl SessionEnded
   \<and> NotFound \<noteq> AlreadyStarted"
proof (intro conjI allI impI)
  show "joinSessionByCode db code uid = Inl NotFound
      \<longleftrightarrow> (\<forall>s \<in> set (sessions db). roomCode s = code \<longrightarrow> status s = Ended)"
  proof (cases "query_roomCode db code")
    case Nil
    then have "\<forall>s \<in> set (sessions db). roomCode s = code \<longrightarrow> status s = Ended"
      by (auto simp: query_roomCode_def filter_empty_conv intro: SessionStatus.exhaust)
    with Nil show ?thesis
      by (simp add: joinSessionByCode_def getSessionByRoomCode_def)
  next
    case (Cons s rest)
    from query_roomCode_Cons[OF Cons]
    have "\<not> (\<forall>s \<in> set (sessions db). roomCode s = code \<longrightarrow> status s = Ended)"
      by auto
    moreover have "joinSessionByCode db code uid \<noteq> Inl NotFound"
      using Cons by (auto simp: joinSessionByCode_def getSessionByRoomCode_def
          updateDoc_sessions_def split: option.splits)
    ultimately show ?thesis by simp
  qed
next
  fix s rest
  assume q: "query_roomCode db code = s # rest"
  { assume "status s = Active"
    with q show "joinSessionByCode db code uid = Inl AlreadyStarted"
      by (simp add: joinSessionByCode_def getSessionByRoomCode_def) }
  { assume "status s = Pending \<and> uid \<in> set (participants s)"
    with q show "joinSessionByCode db code uid = Inr (session_id s, db)"
      by (simp add: joinSessionByCode_def getSessionByRoomCode_def) }
  { assume a: "status s = Pending \<and> uid \<notin> set (participants s)"
    let ?upd = "\<lambda>d. d\<lparr>participants := arrayUnion (participants d) uid\<rparr>"
    let ?db' = "db\<lparr>sessions := map (\<lambda>d. if session_id d = session_id s then ?upd d else d) (sessions db)\<rparr>"
    have j: "joinSessionByCode db code uid = Inr (session_id s, ?db')"
      using joinSessionByCode_append[OF q] a by simp
    have "query_roomCode ?db' code = map (\<lambda>d. if session_id d = session_id s then ?upd d else d) (query_roomCode db code)"
      by (rule query_roomCode_map) simp_all
    with q a have "query_roomCode ?db' code = s\<lparr>participants := participants s @ [uid]\<rparr>
         # map (\<lambda>d. if session_id d = session_id s then ?upd d else d) rest"
      by (simp add: arrayUnion_def)
    with j show "\<exists>db'. joinSessionByCode db code uid = Inr (session_id s, db')
                \<and> (\<exists>rest'. query_roomCode db' code
                              = s\<lparr>participants := participants s @ [uid]\<rparr> # rest')"
      by blast }
next
  fix i db'
  assume "joinSessionByCode db code uid = Inr (i, db')"
  then show "joinSessionByCode db' code uid = Inr (i, db')"
    by (rule joinSessionByCode_second)
next
  show "joinSessionByCode db code uid \<noteq> Inl SessionEnded"
  proof (cases "query_roomCode db code")
    case Nil
    then show ?thesis by (simp add: joinSessionByCode_def getSessionByRoomCode_def)
  next
    case (Cons s rest)
    from query_roomCode_Cons(3)[OF Cons] Cons show ?thesis
      by (auto simp: joinSessionByCode_def getSessionByRoomCode_def updateDoc_sessions_def
          split: option.splits)
  qed
next
  show "NotFound \<noteq> AlreadyStarted" by simp
qed

text \<open>
  The claim C5 as stated fails on a store whose only session with the code has ended: the
  caller gets the not-found error, not an error that tells the session has ended.
\<close>

theorem joinSessionByCode_ended_counterexample:
  "status (ex_session\<lparr>status := Ended\<rparr>) = Ended
   \<and> roomCode (ex_session\<lparr>status := Ended\<rparr>) = ''123456''
   \<and> sessions (ex_db (ex_session\<lparr>status := Ended\<rparr>)) = [ex_session\<lparr>status := Ended\<rparr>]
   \<and> joinSessionByCode (ex_db (ex_session\<lparr>status := Ended\<rparr>)) ''123456'' ''guest'' = Inl NotFound
   \<and> joinSessionByCode (ex_db (ex_session\<lparr>status := Ended\<rparr>)) ''123456'' ''guest'' \<noteq> Inl SessionEnded"
  by (simp add: ex_defs joinSessionByCode_def getSessionByRoomCode_def query_roomCode_def)

text \<open>
  C5 as amended on the example session: a guest joins the pending session, joins again,
  tries the active session, and tries the ended one.
\<close>

theorem joinSessionByCode_spec_witness:
  "joinSessionByCode (ex_db (ex_session\<lparr>status := Pending\<rparr>)) ''123456'' ''guest''
     = Inr (''s1'', ex_db (ex_session\<lparr>status := Pending, participants := [''host'', ''guest'']\<rparr>))
   \<and> joinSessionByCode (ex_db (ex_session\<lparr>status := Pending, participants := [''host'', ''guest'']\<rparr>))
        ''123456'' ''guest''
     = Inr (''s1'', ex_db (ex_session\<lparr>status := Pending, participants := [''host'', ''guest'']\<rparr>))
   \<and> joinSessionByCode (ex_db ex_session) ''123456'' ''guest'' = Inl AlreadyStarted
   \<and> joinSessionByCode (ex_db (ex_session\<lparr>status := Ended\<rparr>)) ''123456'' ''guest'' = Inl NotFound"
proof -
  let ?p = "ex_session\<lparr>status := Pending\<rparr>"
  let ?e = "ex_session\<lparr>status := Ended\<rparr>"
  let ?j = "ex_session\<lparr>status := Pending, participants := [''host'', ''guest'']\<rparr>"
  have first: "joinSessionByCode (ex_db ?p) ''123456'' ''guest'' = Inr (''s1'', ex_db ?j)"
    by (simp add: ex_defs joinSessionByCode_def getSessionByRoomCode_def query_roomCode_def
        updateDoc_sessions_def getDoc_sessions_def arrayUnion_def)
  have second: "joinSessionByCode (ex_db ?j) ''123456'' ''guest'' = Inr (''s1'', ex_db ?j)"
    using joinSessionByCode_spec [of "ex_db ?p" "''123456''" "''guest''"] first by blast
  have q: "query_roomCode (ex_db ex_session) ''123456'' = ex_session # []"
    by (simp add: ex_defs query_roomCode_def)
  have started: "joinSessionByCode (ex_db ex_session) ''123456'' ''guest'' = Inl AlreadyStarted"
    using joinSessionByCode_spec [of "ex_db ex_session" "''123456''" "''guest''"] q
    by (auto simp: ex_session_def)
  have "\<forall>s \<in> set (sessions (ex_db ?e)). roomCode s = ''123456'' \<longrightarrow> status s = Ended"
    by (simp add: ex_defs)
  then have ended: "joinSessionByCode (ex_db ?e) ''123456'' ''guest'' = Inl NotFound"
    using joinSessionByCode_spec [of "ex_db ?e" "''123456''" "''guest''"] by blast
  from first second started ended show ?thesis by simp
qed

section \<open>Room codes\<close>

lemma query_roomCode_empty_iff:
  "query_roomCode db code = [] \<longleftrightarrow>
     (\<forall>s \<in> set (sessions db). (status s = Pending \<or> status s = Active) \<longrightarrow> roomCode s \<noteq> code)"
  by (auto simp: query_roomCode_def filter_empty_conv)

lemma drawNumber_range:
  assumes "0 \<le> r" and "r < 1"
  shows "100000 \<le> drawNumber r" and "drawNumber r \<le> 999999"
  unfolding drawNumber_def
proof -
  show "100000 \<le> \<lfloor>100000 + r * 900000\<rfloor>"
    using assms by (simp add: le_floor_iff)
  have "100000 + r * 900000 < 1000000" using assms by simp
  then have "\<lfloor>100000 + r * 900000\<rfloor> < 1000000" by (simp add: floor_less_iff)
  then show "\<lfloor>100000 + r * 900000\<rfloor> \<le> 999999" by simp
qed

lemma drawNumber_eq_iff:
  "drawNumber r = n \<longleftrightarrow>
     (real_of_int n - 100000) / 900000 \<le> r \<and> r < (real_of_int n - 99999) / 900000"
  unfolding drawNumber_def floor_eq_iff by (auto simp: field_simps)

lemma natToString_small: "n < 10 \<Longrightarrow> natToString n = [digitChar n]"
  by (simp add: natToString.simps)

lemma natToString_step: "10 \<le> n \<Longrightarrow> natToString n = natToString (n div 10) @ [digitChar (n mod 10)]"
  by (subst natToString.simps) simp

lemma natToString_six:
  assumes "100000 \<le> n" and "n \<le> 999999"
  shows "natToString n =
           [digitChar (n div 100000), digitChar (n div 10000 mod 10), digitChar (n div 1000 mod 10),
            digitChar (n div 100 mod 10), digitChar (n div 10 mod 10), digitChar (n mod 10)]"
proof -
  have 1: "natToString n = natToString (n div 10) @ [digitChar (n mod 10)]"
    using assms by (intro natToString_step) simp
  have 2: "natToString (n div 10) = natToString (n div 100) @ [digitChar (n div 10 mod 10)]"
    using assms natToString_step[of "n div 10"] by (simp add: div_mult2_eq[symmetric])
  have 3: "natToString (n div 100) = natToString (n div 1000) @ [digitChar (n div 100 mod 10)]"
    using assms natToString_step[of "n div 100"] by (simp add: div_mult2_eq[symmetric])
  have 4: "natToString (n div 1000) = natToString (n div 10000) @ [digitChar (n div 1000 mod 10)]"
    using assms natToString_step[of "n div 1000"] by (simp add: div_mult2_eq[symmetric])
  have 5: "natToString (n div 10000) = natToString (n div 100000) @ [digitChar (n div 10000 mod 10)]"
    using assms natToString_step[of "n div 10000"] by (simp add: div_mult2_eq[symmetric])
  have 6: "natToString (n div 100000) = [digitChar (n div 100000)]"
    using assms by (intro natToString_small) simp
  show ?thesis by (simp add: 1 2 3 4 5 6)
qed

lemma digitChar_nonzero: "1 \<le> d \<Longrightarrow> d \<le> 9 \<Longrightarrow> digitChar d \<noteq> CHR ''0''"
proof -
  assume "1 \<le> d" and "d \<le> 9"
  then have "d \<in> {1, 2, 3, 4, 5, 6, 7, 8, 9}" by auto
  then show ?thesis by (auto simp: digitChar_def)
qed

lemma digitChar_digit: "d \<le> 9 \<Longrightarrow> digitChar d \<in> set ''0123456789''"
proof -
  assume "d \<le> 9"
  then have "d \<in> {0, 1, 2, 3, 4, 5, 6, 7, 8, 9}" by auto
  then show ?thesis by (auto simp: digitChar_def)
qed

lemma toString_six:
  assumes "100000 \<le> i" and "i \<le> 999999"
  shows "length (toString i) = 6" and "hd (toString i) \<noteq> CHR ''0''"
    and "set (toString i) \<subseteq> set ''0123456789''"
proof -
  let ?n = "nat i"
  have n: "100000 \<le> ?n" "?n \<le> 999999" using assms by simp_all
  have t: "toString i = natToString ?n" using assms by (simp add: toString_def)
  note six = natToString_six[OF n]
  show "length (toString i) = 6" by (simp add: t six)
  have "1 \<le> ?n div 100000" "?n div 100000 \<le> 9" using n by simp_all
  then show "hd (toString i) \<noteq> CHR ''0''"
    by (simp add: t six digitChar_nonzero)
  have m: "\<And>m. digitChar (m mod 10) \<in> set ''0123456789''"
    by (rule digitChar_digit) simp
  have h: "digitChar (?n div 100000) \<in> set ''0123456789''"
    using n by (intro digitChar_digit) simp
  have "set (toString i) =
          {digitChar (?n div 100000), digitChar (?n div 10000 mod 10), digitChar (?n div 1000 mod 10),
           digitChar (?n div 100 mod 10), digitChar (?n div 10 mod 10), digitChar (?n mod 10)}"
    by (simp add: t six)
  then show "set (toString i) \<subseteq> set ''0123456789''"
    by (simp only: insert_subset m h empty_subsetI simp_thms)
qed


lemma generateRoomCode_Inr:
  "generateRoomCode db random m a = Inr code \<Longrightarrow>
     query_roomCode db code = [] \<and> (\<exists>k. a \<le> k \<and> k < m \<and> code = drawCode (random k))"
proof (induction db random m a rule: generateRoomCode.induct)
  case (1 db random m a)
  show ?case
  proof (cases "a \<ge> m")
    case True
    with "1.prems" show ?thesis by (simp add: generateRoomCode.simps)
  next
    case False
    show ?thesis
    proof (cases "query_roomCode db (drawCode (random a)) = []")
      case True
      with False "1.prems" have "code = drawCode (random a)"
        by (simp add: generateRoomCode.simps)
      with True False show ?thesis by auto
    next
      case coll: False
      with False "1.prems" have "generateRoomCode db random m (a + 1) = Inr code"
        by (simp add: generateRoomCode.simps)
      with "1.IH" False coll
      have "query_roomCode db code = [] \<and> (\<exists>k. a + 1 \<le> k \<and> k < m \<and> code = drawCode (random k))"
        by simp
      then obtain k where "query_roomCode db code = []" "a + 1 \<le> k" "k < m"
        "code = drawCode (random k)" by blast
      then have "a \<le> k \<and> k < m \<and> code = drawCode (random k)" by simp
      with \<open>query_roomCode db code = []\<close> show ?thesis by blast
    qed
  qed
qed

lemma generateRoomCode_exhausted:
  "(\<forall>k. a \<le> k \<and> k < m \<longrightarrow> query_roomCode db (drawCode (random k)) \<noteq> []) \<Longrightarrow>
     generateRoomCode db random m a = Inl ExhaustedRetries"
proof (induction db random m a rule: generateRoomCode.induct)
  case (1 db random m a)
  show ?case
  proof (cases "a \<ge> m")
    case True
    then show ?thesis by (simp add: generateRoomCode.simps)
  next
    case False
    with "1.prems" have coll: "query_roomCode db (drawCode (random a)) \<noteq> []" by simp
    from "1.prems" have "\<forall>k. a + 1 \<le> k \<and> k < m \<longrightarrow> query_roomCode db (drawCode (random k)) \<noteq> []"
      by simp
    with "1.IH" False coll have "generateRoomCode db random m (a + 1) = Inl ExhaustedRetries"
      by simp
    with False coll show ?thesis
      by (subst generateRoomCode.simps) simp
  qed
qed

lemma generateRoomCode_first_free:
  "a \<le> k \<Longrightarrow> k < m \<Longrightarrow> query_roomCode db (drawCode (random k)) = [] \<Longrightarrow>
   (\<forall>j. a \<le> j \<and> j < k \<longrightarrow> query_roomCode db (drawCode (random j)) \<noteq> []) \<Longrightarrow>
     generateRoomCode db random m a = Inr (drawCode (random k))"
proof (induction db random m a rule: generateRoomCode.induct)
  case (1 db random m a)
  from "1.prems" have am: "\<not> a \<ge> m" by simp
  show ?case
  proof (cases "a = k")
    case True
    with "1.prems" am show ?thesis
      by (subst generateRoomCode.simps) simp
  next
    case False
    with "1.prems" have lt: "a + 1 \<le> k" and coll: "query_roomCode db (drawCode (random a)) \<noteq> []"
      by simp_all
    from "1.prems" have "\<forall>j. a + 1 \<le> j \<and> j < k \<longrightarrow> query_roomCode db (drawCode (random j)) \<noteq> []"
      by simp
    with "1.IH" am coll lt "1.prems"
    have "generateRoomCode db random m (a + 1) = Inr (drawCode (random k))"
      by simp
    with am coll show ?thesis
      by (subst generateRoomCode.simps) simp
  qed
qed

lemma generateRoomCode_six_digits:
  assumes "\<forall>k. 0 \<le> random k \<and> random k < 1"
      and "generateRoomCode db random m a = Inr code"
  shows "\<exists>n. 100000 \<le> n \<and> n \<le> 999999 \<and> code = toString n"
    and "length code = 6" and "hd code \<noteq> CHR ''0''" and "set code \<subseteq> set ''0123456789''"
proof -
  from generateRoomCode_Inr[OF assms(2)] obtain k where k: "code = drawCode (random k)"
    by blast
  from assms(1) have r: "0 \<le> random k" "random k < 1" by simp_all
  note n = drawNumber_range[OF r]
  from k n show "\<exists>n. 100000 \<le> n \<and> n \<le> 999999 \<and> code = toString n"
    unfolding drawCode_def by blast
  from k show "length code = 6" and "hd code \<noteq> CHR ''0''" and "set code \<subseteq> set ''0123456789''"
    unfolding drawCode_def using toString_six[OF n] by simp_all
qed

lemma drawCode_0: "drawCode 0 = ''100000''"
  by (simp add: drawCode_def drawNumber_def toString_def natToString_six digitChar_def)

lemma drawCode_ex: "drawCode (733 / 28125) = ''123456''"
  by (simp add: drawCode_def drawNumber_def toString_def natToString_six digitChar_def)

text \<open>
  The claim C6, that codes with a leading zero (those below 100000) can be returned, fails:
  the smallest draw gives the code \<^verbatim>\<open>100000\<close>, and no run of the generator whose draws
  lie in the interval from 0 to 1 returns a code that starts with the digit 0.
\<close>

theorem generateRoomCode_leading_zero_counterexample:
  "drawCode 0 = ''100000''
   \<and> \<not> (\<exists>db random maxRetries attempt code.
           (\<forall>k. 0 \<le> random k \<and> random k < 1)
         \<and> generateRoomCode db random maxRetries attempt = Inr code
         \<and> hd code = CHR ''0'')"
  using generateRoomCode_six_digits(3) drawCode_0 by blast

text \<open>
  Claim C6, as amended. With draws in the interval from 0 (included) to 1 (excluded), every
  code that the generator returns is the decimal string of an integer from 100000 to
  999999: six decimal digits, the first of which is not 0. Each integer of that range is
  drawn exactly on an interval of draws of length 1/900000, so a uniform draw gives a
  uniform code; and each code of the range that is not reserved is returned for some draw.
\<close>

theorem generateRoomCode_code_range:
  "((\<forall>k. 0 \<le> random k \<and> random k < 1) \<and> generateRoomCode db random maxRetries attempt = Inr code
      \<longrightarrow> (\<exists>n. 100000 \<le> n \<and> n \<le> 999999 \<and> code = toString n)
          \<and> length code = 6 \<and> hd code \<noteq> CHR ''0'' \<and> set code \<subseteq> set ''0123456789'')
   \<and> (drawNumber r = n \<longleftrightarrow>
          (real_of_int n - 100000) / 900000 \<le> r \<and> r < (real_of_int n - 100000) / 900000 + 1 / 900000)
   \<and> (100000 \<le> n \<and> n \<le> 999999 \<and> query_roomCode db (toString n) = [] \<and> 0 < maxRetries
      \<longrightarrow> (\<exists>r0. 0 \<le> r0 \<and> r0 < 1
                 \<and> generateRoomCode db (\<lambda>k. r0) maxRetries 0 = Inr (toString n)))"
proof (intro conjI impI)
  assume a: "(\<forall>k. 0 \<le> random k \<and> random k < 1) \<and> generateRoomCode db random maxRetries attempt = Inr code"
  then have r: "\<forall>k. 0 \<le> random k \<and> random k < 1"
    and g: "generateRoomCode db random maxRetries attempt = Inr code" by simp_all
  show "\<exists>n. 100000 \<le> n \<and> n \<le> 999999 \<and> code = toString n"
    by (rule generateRoomCode_six_digits(1)[OF r g])
  show "length code = 6" by (rule generateRoomCode_six_digits(2)[OF r g])
  show "hd code \<noteq> CHR ''0''" by (rule generateRoomCode_six_digits(3)[OF r g])
  show "set code \<subseteq> set ''0123456789''" by (rule generateRoomCode_six_digits(4)[OF r g])
next
  show "drawNumber r = n \<longleftrightarrow>
          (real_of_int n - 100000) / 900000 \<le> r \<and> r < (real_of_int n - 100000) / 900000 + 1 / 900000"
    unfolding drawNumber_eq_iff by (auto simp: field_simps)
next
  assume a: "100000 \<le> n \<and> n \<le> 999999 \<and> query_roomCode db (toString n) = [] \<and> 0 < maxRetries"
  define r0 where "r0 = (real_of_int n - 100000) / 900000"
  have r0: "0 \<le> r0" "r0 < 1" using a by (simp_all add: r0_def)
  have "drawNumber r0 = n" unfolding drawNumber_eq_iff by (simp add: r0_def field_simps)
  then have d: "drawCode r0 = toString n" by (simp add: drawCode_def)
  from a d have "generateRoomCode db (\<lambda>k. r0) maxRetries 0 = Inr (toString n)"
    by (subst generateRoomCode.simps) simp
  with r0 show "\<exists>r0. 0 \<le> r0 \<and> r0 < 1 \<and> generateRoomCode db (\<lambda>k. r0) maxRetries 0 = Inr (toString n)"
    by blast
qed

text \<open>
  C6 as amended on the example store, which reserves the code \<^verbatim>\<open>123456\<close>: the draw 0 is
  not reserved and returns \<^verbatim>\<open>100000\<close>, six digits that start with 1.
\<close>

theorem generateRoomCode_code_range_witness:
  "generateRoomCode (ex_db ex_session) (\<lambda>k. 0) 10 0 = Inr ''100000''
   \<and> (\<exists>n. 100000 \<le> n \<and> n \<le> 999999 \<and> ''100000'' = toString n)
   \<and> length ''100000'' = 6 \<and> hd ''100000'' \<noteq> CHR ''0''
   \<and> drawNumber (1 / 2) = 550000
   \<and> (\<exists>r0. 0 \<le> r0 \<and> r0 < 1
          \<and> generateRoomCode (ex_db ex_session) (\<lambda>k. r0) 10 0 = Inr (toString 999999))"
proof -
  have q: "query_roomCode (ex_db ex_session) ''100000'' = []"
    by (simp add: ex_defs query_roomCode_def)
  have g: "generateRoomCode (ex_db ex_session) (\<lambda>k. 0) 10 0 = Inr ''100000''"
    by (subst generateRoomCode.simps) (simp add: drawCode_0 q)
  have r: "\<forall>k::int. (0::real) \<le> (\<lambda>k. 0) k \<and> (\<lambda>k. 0) k < (1::real)" by simp
  have t: "toString 999999 = ''999999''"
    by (simp add: toString_def natToString_six digitChar_def)
  have q9: "query_roomCode (ex_db ex_session) (toString 999999) = []"
    by (simp add: t ex_defs query_roomCode_def)
  note th = generateRoomCode_code_range
              [of "\<lambda>k. 0" "ex_db ex_session" 10 0 "''100000''" "1 / 2" 550000]
  note th9 = generateRoomCode_code_range
              [of "\<lambda>k. 0" "ex_db ex_session" 10 0 "''100000''" "1 / 2" 999999]
  from th g r have 1: "\<exists>n. 100000 \<le> n \<and> n \<le> 999999 \<and> ''100000'' = toString n"
    by blast
  from th have 2: "drawNumber (1 / 2) = 550000" by simp
  from th9 q9 have 3: "\<exists>r0. 0 \<le> r0 \<and> r0 < 1
          \<and> generateRoomCode (ex_db ex_session) (\<lambda>k. r0) 10 0 = Inr (toString 999999)"
    by simp
  from g 1 2 3 show ?thesis by simp
qed

text \<open>
  Claim C7. A code that \<^verbatim>\<open>generateRoomCode\<close> returns is the room code of no pending or
  active session. The attempts are numbered from \<^verbatim>\<open>attempt\<close> up to \<^verbatim>\<open>maxRetries - 1\<close>:
  the code of the first attempt that does not collide is returned, and when every attempt
  collides the generator fails with the retries-exhausted error. In particular it fails
  with that error, whatever the draws, when every code from 100000 to 999999 is reserved.
  The function is total: it returns a code or the error for every input.
\<close>

theorem generateRoomCode_unique_or_exhausted:
  "(\<forall>code. generateRoomCode db random maxRetries attempt = Inr code \<longrightarrow>
       (\<forall>s \<in> set (sessions db). status s = Pending \<or> status s = Active \<longrightarrow> roomCode s \<noteq> code))
   \<and> (\<forall>k. attempt \<le> k \<and> k < maxRetries
          \<and> query_roomCode db (drawCode (random k)) = []
          \<and> (\<forall>j. attempt \<le> j \<and> j < k \<longrightarrow> query_roomCode db (drawCode (random j)) \<noteq> [])
        \<longrightarrow> generateRoomCode db random maxRetries attempt = Inr (drawCode (random k)))
   \<and> ((\<forall>k. attempt \<le> k \<and> k < maxRetries \<longrightarrow> query_roomCode db (drawCode (random k)) \<noteq> [])
        \<longrightarrow> generateRoomCode db random maxRetries attempt = Inl ExhaustedRetries)
   \<and> ((\<forall>k. 0 \<le> random k \<and> random k < 1)
        \<and> (\<forall>n. 100000 \<le> n \<and> n \<le> 999999 \<longrightarrow>
              (\<exists>s \<in> set (sessions db).
                 (status s = Pending \<or> status s = Active) \<and> roomCode s = toString n))
        \<longrightarrow> generateRoomCode db random maxRetries attempt = Inl ExhaustedRetries)"
proof (intro conjI allI impI)
  fix code
  assume "generateRoomCode db random maxRetries attempt = Inr code"
  from generateRoomCode_Inr[OF this] have "query_roomCode db code = []" by simp
  then show "\<forall>s \<in> set (sessions db). status s = Pending \<or> status s = Active \<longrightarrow> roomCode s \<noteq> code"
    by (simp add: query_roomCode_empty_iff)
next
  fix k
  assume "attempt \<le> k \<and> k < maxRetries
          \<and> query_roomCode db (drawCode (random k)) = []
          \<and> (\<forall>j. attempt \<le> j \<and> j < k \<longrightarrow> query_roomCode db (drawCode (random j)) \<noteq> [])"
  then show "generateRoomCode db random maxRetries attempt = Inr (drawCode (random k))"
    by (intro generateRoomCode_first_free) simp_all
next
  assume "\<forall>k. attempt \<le> k \<and> k < maxRetries \<longrightarrow> query_roomCode db (drawCode (random k)) \<noteq> []"
  then show "generateRoomCode db random maxRetries attempt = Inl ExhaustedRetries"
    by (rule generateRoomCode_exhausted)
next
  assume a: "(\<forall>k. 0 \<le> random k \<and> random k < 1)
        \<and> (\<forall>n. 100000 \<le> n \<and> n \<le> 999999 \<longrightarrow>
              (\<exists>s \<in> set (sessions db).
                 (status s = Pending \<or> status s = Active) \<and> roomCode s = toString n))"
  have "query_roomCode db (drawCode (random k)) \<noteq> []" for k
  proof -
    from a have "0 \<le> random k" "random k < 1" by simp_all
    from drawNumber_range[OF this] a
    have "\<exists>s \<in> set (sessions db).
            (status s = Pending \<or> status s = Active) \<and> roomCode s = toString (drawNumber (random k))"
      by blast
    then show ?thesis
      by (auto simp: query_roomCode_empty_iff drawCode_def)
  qed
  then show "generateRoomCode db random maxRetries attempt = Inl ExhaustedRetries"
    by (intro generateRoomCode_exhausted) simp
qed

text \<open>
  C7 on the example store, which reserves \<^verbatim>\<open>123456\<close>: ten draws of that code exhaust the
  default budget; when the third draw is free its code is returned, and it is not the
  reserved one; and on the store that reserves every code the generator fails.
\<close>

theorem generateRoomCode_unique_or_exhausted_witness:
  "generateRoomCode (ex_db ex_session) (\<lambda>k. 733 / 28125) 10 0 = Inl ExhaustedRetries
   \<and> generateRoomCode (ex_db ex_session) (\<lambda>k. if k < 2 then 733 / 28125 else 0) 10 0
       = Inr ''100000''
   \<and> roomCode ex_session \<noteq> ''100000''
   \<and> generateRoomCode ex_db_full (\<lambda>k. 1 / 2) 10 0 = Inl ExhaustedRetries"
proof -
  let ?db = "ex_db ex_session"
  let ?rnd = "\<lambda>k::int. if k < 2 then 733 / 28125 else (0::real)"
  have q0: "query_roomCode ?db ''100000'' = []"
    by (simp add: ex_defs query_roomCode_def)
  have q1: "query_roomCode ?db ''123456'' \<noteq> []"
    by (simp add: ex_defs query_roomCode_def)
  have "\<forall>k. (0::int) \<le> k \<and> k < 10 \<longrightarrow> query_roomCode ?db (drawCode ((\<lambda>k. 733 / 28125) k)) \<noteq> []"
    by (simp add: drawCode_ex q1)
  with generateRoomCode_unique_or_exhausted [of ?db "\<lambda>k. 733 / 28125" 10 0]
  have a: "generateRoomCode ?db (\<lambda>k. 733 / 28125) 10 0 = Inl ExhaustedRetries"
    by blast
  have "(0::int) \<le> 2 \<and> (2::int) < 10
          \<and> query_roomCode ?db (drawCode (?rnd 2)) = []
          \<and> (\<forall>j. 0 \<le> j \<and> j < 2 \<longrightarrow> query_roomCode ?db (drawCode (?rnd j)) \<noteq> [])"
    by (simp add: drawCode_ex drawCode_0 q0 q1)
  with generateRoomCode_unique_or_exhausted [of ?db ?rnd 10 0]
  have "generateRoomCode ?db ?rnd 10 0 = Inr (drawCode (?rnd 2))"
    by blast
  then have b: "generateRoomCode ?db ?rnd 10 0 = Inr ''100000''"
    by (simp add: drawCode_0)
  have "ex_session \<in> set (sessions ?db)" "status ex_session = Active"
    by (simp_all add: ex_defs)
  with generateRoomCode_unique_or_exhausted [of ?db ?rnd 10 0] b
  have c: "roomCode ex_session \<noteq> ''100000''"
    by blast
  have full: "\<forall>n. 100000 \<le> n \<and> n \<le> 999999 \<longrightarrow>
              (\<exists>s \<in> set (sessions ex_db_full).
                 (status s = Pending \<or> status s = Active) \<and> roomCode s = toString n)"
  proof (intro allI impI)
    fix n :: int
    assume n: "100000 \<le> n \<and> n \<le> 999999"
    let ?f = "\<lambda>m. ex_session\<lparr>session_id := toString (int m), status := Pending,
                              roomCode := toString (int m)\<rparr>"
    have "sessions ex_db_full = map ?f [100000 ..< 1000000]"
      by (simp only: ex_db_full_def Firestore.select_convs)
    moreover from n have "nat n \<in> {100000 ..< 1000000}" by auto
    then have "nat n \<in> set [100000 ..< 1000000]" by (simp only: set_upt)
    then have "?f (nat n) \<in> set (map ?f [100000 ..< 1000000])"
      by (simp only: set_map) (rule imageI)
    ultimately have "?f (nat n) \<in> set (sessions ex_db_full)" by (simp only:)
    moreover from n have "roomCode (?f (nat n)) = toString n" by simp
    moreover have "status (?f (nat n)) = Pending" by simp
    ultimately show "\<exists>s \<in> set (sessions ex_db_full).
                 (status s = Pending \<or> status s = Active) \<and> roomCode s = toString n"
      by blast
  qed
  have "\<forall>k::int. (0::real) \<le> (\<lambda>k. 1 / 2) k \<and> (\<lambda>k. 1 / 2) k < (1::real)" by simp
  with generateRoomCode_unique_or_exhausted [of ex_db_full "\<lambda>k. 1 / 2" 10 0] full
  have d: "generateRoomCode ex_db_full (\<lambda>k. 1 / 2) 10 0 = Inl ExhaustedRetries"
    by blast
  from a b c d show ?thesis by simp
qed

section \<open>Stats reconciliation, once per session and user\<close>

lemma or_zero_id: "or_zero x = x"
  by (simp add: or_zero_def)

lemma updateUserStats_general:
  assumes g: "getDoc_sessions db (session_id sd) = Some cur"
      and n: "uid \<notin> set (or_empty (statsUpdatedFor cur))"
      and u: "users db uid = Some p"
  shows "\<exists>db'. updateUserStats db uid sd = Inr db'
           \<and> users db' =
               (users db)(uid \<mapsto>
                 (if outcome sd = Some Successful
                  then p\<lparr>totalHours := totalHours p + real_of_int (duration sd) / 60,
                         profile_violations :=
                           profile_violations p + getUserTotalViolationTime (violations sd) uid,
                         sessionsCompleted := sessionsCompleted p + 1\<rparr>
                  else p\<lparr>profile_violations :=
                           profile_violations p + getUserTotalViolationTime (violations sd) uid\<rparr>))
           \<and> getDoc_sessions db' (session_id sd) =
               Some (cur\<lparr>statsUpdatedFor := Some (or_empty (statsUpdatedFor cur) @ [uid])\<rparr>)"
proof -
  let ?p' = "if outcome sd = Some Successful
                  then p\<lparr>totalHours := totalHours p + real_of_int (duration sd) / 60,
                         profile_violations :=
                           profile_violations p + getUserTotalViolationTime (violations sd) uid,
                         sessionsCompleted := sessionsCompleted p + 1\<rparr>
                  else p\<lparr>profile_violations :=
                           profile_violations p + getUserTotalViolationTime (violations sd) uid\<rparr>"
  let ?db1 = "db\<lparr>users := (users db)(uid \<mapsto> ?p')\<rparr>"
  let ?upd = "\<lambda>s. s\<lparr>statsUpdatedFor := Some (arrayUnion (or_empty (statsUpdatedFor s)) uid)\<rparr>"
  have g1: "getDoc_sessions ?db1 (session_id sd) = Some cur"
    using g by (simp add: getDoc_sessions_def)
  from getDoc_updateDoc[OF g1, of ?upd]
  obtain db' where db': "updateDoc_sessions ?db1 (session_id sd) ?upd = Inr db'"
    "getDoc_sessions db' (session_id sd) = Some (?upd cur)"
    by auto
  have us: "users db' = users ?db1"
    using db'(1) by (auto simp: updateDoc_sessions_def split: option.splits)
  have "updateUserStats db uid sd = Inr db'"
    using g n u db'(1)
    by (auto simp: updateUserStats_def updateDoc_users_def Let_def or_zero_id)
  moreover have "?upd cur = cur\<lparr>statsUpdatedFor := Some (or_empty (statsUpdatedFor cur) @ [uid])\<rparr>"
    using n by (simp add: arrayUnion_def)
  ultimately show ?thesis using db'(2) us by auto
qed

lemma updateUserStats_noop:
  "getDoc_sessions db (session_id sd) = Some cur \<Longrightarrow> uid \<in> set (or_empty (statsUpdatedFor cur))
     \<Longrightarrow> updateUserStats db uid sd = Inr db"
  by (simp add: updateUserStats_def)

lemma updateUserStats_twice:
  "\<exists>db1. updateUserStats db uid sd = Inr db1 \<and> updateUserStats db1 uid sd = Inr db1"
proof (cases "getDoc_sessions db (session_id sd)")
  case None
  then show ?thesis by (simp add: updateUserStats_def)
next
  case (Some cur)
  show ?thesis
  proof (cases "uid \<in> set (or_empty (statsUpdatedFor cur))")
    case True
    with Some show ?thesis by (simp add: updateUserStats_def)
  next
    case False
    show ?thesis
    proof (cases "users db uid")
      case None
      with Some False show ?thesis by (simp add: updateUserStats_def)
    next
      case (Some p)
      from updateUserStats_general[OF \<open>getDoc_sessions db (session_id sd) = Some cur\<close> False Some]
      obtain db1 where 1: "updateUserStats db uid sd = Inr db1"
        and 2: "getDoc_sessions db1 (session_id sd) =
               Some (cur\<lparr>statsUpdatedFor := Some (or_empty (statsUpdatedFor cur) @ [uid])\<rparr>)"
        by blast
      have "updateUserStats db1 uid sd = Inr db1"
        by (rule updateUserStats_noop[OF 2]) (simp add: or_empty_def)
      with 1 show ?thesis by blast
    qed
  qed
qed

lemma updateUserStats_no_profile:
  "users db uid = None \<Longrightarrow> updateUserStats db uid sd = Inr db"
  by (simp add: updateUserStats_def split: option.splits)

text \<open>
  The claim C8, that for every user who is not in \<^verbatim>\<open>statsUpdatedFor\<close> the profile is
  updated and the user is then added to \<^verbatim>\<open>statsUpdatedFor\<close>, fails for a user without a
  profile document: for the ended, successful example session and the user \<^verbatim>\<open>ghost\<close>,
  \<^verbatim>\<open>updateUserStats\<close> returns the store as it was, and \<^verbatim>\<open>ghost\<close> is not in the stored
  session's \<^verbatim>\<open>statsUpdatedFor\<close>.
\<close>

theorem updateUserStats_no_profile_counterexample:
  "getDoc_sessions (ex_store (ex_session\<lparr>status := Ended, outcome := Some Successful\<rparr>)) ''s1''
     = Some (ex_session\<lparr>status := Ended, outcome := Some Successful\<rparr>)
   \<and> ''ghost'' \<notin> set (or_empty (statsUpdatedFor
                                   (ex_session\<lparr>status := Ended, outcome := Some Successful\<rparr>)))
   \<and> users (ex_store (ex_session\<lparr>status := Ended, outcome := Some Successful\<rparr>)) ''ghost'' = None
   \<and> updateUserStats (ex_store (ex_session\<lparr>status := Ended, outcome := Some Successful\<rparr>))
        ''ghost'' (ex_session\<lparr>status := Ended, outcome := Some Successful\<rparr>)
       = Inr (ex_store (ex_session\<lparr>status := Ended, outcome := Some Successful\<rparr>))
   \<and> map_option statsUpdatedFor
        (getDoc_sessions (ex_store (ex_session\<lparr>status := Ended, outcome := Some Successful\<rparr>))
           ''s1'')
       = Some None"
  by (simp add: ex_store_def ex_session_def getDoc_sessions_def or_empty_def
      updateUserStats_def)

text \<open>
  Claim C8, as amended. The session is stored and is the one passed to
  \<^verbatim>\<open>updateUserStats\<close>, and the user is not in its \<^verbatim>\<open>statsUpdatedFor\<close>. The user's violation
  time, \<^verbatim>\<open>getUserTotalViolationTime(session.violations, userId)\<close>, is the sum of
  \<^verbatim>\<open>durationSeconds\<close> over the session's violations of that user only. When the user has a
  profile, the call succeeds: for a successful session the profile gains
  \<^verbatim>\<open>duration / 60\<close> hours, that violation time and one completed session; otherwise (a
  failed session) only that violation time is added, and hours and completed sessions stay;
  in both cases the user is then appended to the stored session's \<^verbatim>\<open>statsUpdatedFor\<close>.
  When the user has no profile, the call returns the store unchanged: nothing is written
  and the user is not added to \<^verbatim>\<open>statsUpdatedFor\<close>.
\<close>

theorem updateUserStats_spec:
  assumes "getDoc_sessions db (session_id s) = Some s"
      and "uid \<notin> set (or_empty (statsUpdatedFor s))"
  shows "getUserTotalViolationTime (violations s) uid =
           sum_list (map durationSeconds (filter (\<lambda>v. userId v = uid) (violations s)))
         \<and> (\<forall>p. users db uid = Some p \<longrightarrow>
              (\<exists>db'. updateUserStats db uid s = Inr db'
                 \<and> users db' =
                     (users db)(uid \<mapsto>
                       (if outcome s = Some Successful
                        then p\<lparr>totalHours := totalHours p + real_of_int (duration s) / 60,
                               profile_violations :=
                                 profile_violations p
                                   + sum_list (map durationSeconds
                                        (filter (\<lambda>v. userId v = uid) (violations s))),
                               sessionsCompleted := sessionsCompleted p + 1\<rparr>
                        else p\<lparr>profile_violations :=
                                 profile_violations p
                                   + sum_list (map durationSeconds
                                        (filter (\<lambda>v. userId v = uid) (violations s)))\<rparr>))
                 \<and> getDoc_sessions db' (session_id s) =
                     Some (s\<lparr>statsUpdatedFor := Some (or_empty (statsUpdatedFor s) @ [uid])\<rparr>)))
         \<and> (users db uid = None \<longrightarrow> updateUserStats db uid s = Inr db)"
proof (intro conjI allI impI)
  show "getUserTotalViolationTime (violations s) uid =
           sum_list (map durationSeconds (filter (\<lambda>v. userId v = uid) (violations s)))"
    by (rule getUserTotalViolationTime_sum)
next
  fix p
  assume "users db uid = Some p"
  from updateUserStats_general[OF assms this]
  show "\<exists>db'. updateUserStats db uid s = Inr db'
                 \<and> users db' =
                     (users db)(uid \<mapsto>
                       (if outcome s = Some Successful
                        then p\<lparr>totalHours := totalHours p + real_of_int (duration s) / 60,
                               profile_violations :=
                                 profile_violations p
                                   + sum_list (map durationSeconds
                                        (filter (\<lambda>v. userId v = uid) (violations s))),
                               sessionsCompleted := sessionsCompleted p + 1\<rparr>
                        else p\<lparr>profile_violations :=
                                 profile_violations p
                                   + sum_list (map durationSeconds
                                        (filter (\<lambda>v. userId v = uid) (violations s)))\<rparr>))
                 \<and> getDoc_sessions db' (session_id s) =
                     Some (s\<lparr>statsUpdatedFor := Some (or_empty (statsUpdatedFor s) @ [uid])\<rparr>)"
    unfolding getUserTotalViolationTime_sum .
next
  assume "users db uid = None"
  then show "updateUserStats db uid s = Inr db"
    by (rule updateUserStats_no_profile)
qed

text \<open>
  C8 as amended on the example profile (2 hours, 40 seconds of violations, 3 sessions). In
  a successful 25 minute session in which the host was away 15 seconds and a guest 100
  seconds, the host gains 25/60 hours, 15 seconds and one session, and the guest's
  reconciliation, who has no profile, changes nothing. In a failed session in which the
  host was away 350 seconds, only the 350 seconds are added.
\<close>

theorem updateUserStats_spec_witness:
  "getUserTotalViolationTime ex_host_guest ''host'' = 15
   \<and> getUserTotalViolationTime ex_host_guest ''guest'' = 100
   \<and> (\<exists>db'. updateUserStats
             (ex_store (ex_session\<lparr>status := Ended, outcome := Some Successful,
                                    violations := ex_host_guest\<rparr>))
             ''host''
             (ex_session\<lparr>status := Ended, outcome := Some Successful,
                          violations := ex_host_guest\<rparr>) = Inr db'
         \<and> users db' ''host'' =
             Some (ex_profile\<lparr>totalHours := 2 + 25 / 60, profile_violations := 55,
                               sessionsCompleted := 4\<rparr>)
         \<and> map_option statsUpdatedFor (getDoc_sessions db' ''s1'') = Some (Some [''host'']))
   \<and> updateUserStats
        (ex_store (ex_session\<lparr>status := Ended, outcome := Some Successful,
                               violations := ex_host_guest\<rparr>))
        ''guest''
        (ex_session\<lparr>status := Ended, outcome := Some Successful, violations := ex_host_guest\<rparr>)
       = Inr (ex_store (ex_session\<lparr>status := Ended, outcome := Some Successful,
                                    violations := ex_host_guest\<rparr>))
   \<and> (\<exists>db'. updateUserStats
             (ex_store (ex_session\<lparr>status := Ended, outcome := Some Failed,
                                    violations := ex_violations\<rparr>))
             ''host''
             (ex_session\<lparr>status := Ended, outcome := Some Failed, violations := ex_violations\<rparr>)
             = Inr db'
         \<and> users db' ''host'' = Some (ex_profile\<lparr>profile_violations := 390\<rparr>)
         \<and> map_option statsUpdatedFor (getDoc_sessions db' ''s1'') = Some (Some [''host'']))"
proof -
  let ?ok = "ex_session\<lparr>status := Ended, outcome := Some Successful,
                          violations := ex_host_guest\<rparr>"
  let ?ko = "ex_session\<lparr>status := Ended, outcome := Some Failed, violations := ex_violations\<rparr>"
  have g: "getDoc_sessions (ex_store ?ok) (session_id ?ok) = Some ?ok"
          "getDoc_sessions (ex_store ?ko) (session_id ?ko) = Some ?ko"
    by (simp_all add: ex_store_def getDoc_sessions_def)
  have n: "''host'' \<notin> set (or_empty (statsUpdatedFor ?ok))"
          "''host'' \<notin> set (or_empty (statsUpdatedFor ?ko))"
          "''guest'' \<notin> set (or_empty (statsUpdatedFor ?ok))"
    by (simp_all add: ex_session_def or_empty_def)
  have u: "users (ex_store ?ok) ''host'' = Some ex_profile"
          "users (ex_store ?ko) ''host'' = Some ex_profile"
          "users (ex_store ?ok) ''guest'' = None"
    by (simp_all add: ex_store_def)
  have f: "session_id ?ok = ''s1''" "session_id ?ko = ''s1''" "duration ?ok = 25"
          "statsUpdatedFor ?ok = None" "statsUpdatedFor ?ko = None"
          "outcome ?ok = Some Successful" "outcome ?ko = Some Failed"
          "violations ?ok = ex_host_guest" "violations ?ko = ex_violations"
    by (simp_all add: ex_session_def)
  have p: "totalHours ex_profile = 2" "profile_violations ex_profile = 40"
          "sessionsCompleted ex_profile = 3"
    by (simp_all add: ex_profile_def)
  have s: "sum_list (map durationSeconds (filter (\<lambda>v. userId v = ''host'') ex_host_guest)) = 15"
          "sum_list (map durationSeconds (filter (\<lambda>v. userId v = ''guest'') ex_host_guest)) = 100"
          "sum_list (map durationSeconds (filter (\<lambda>v. userId v = ''host'') ex_violations)) = 350"
    by (simp_all add: ex_host_guest_def ex_violations_def)
  note ok_host = updateUserStats_spec [OF g(1) n(1)]
  note ok_guest = updateUserStats_spec [OF g(1) n(3)]
  note ko_host = updateUserStats_spec [OF g(2) n(2)]
  from ok_host have t1: "getUserTotalViolationTime ex_host_guest ''host'' = 15"
    unfolding f s by simp
  from ok_guest have t2: "getUserTotalViolationTime ex_host_guest ''guest'' = 100"
    unfolding f s by simp
  from ok_host u(1)
  have a: "\<exists>db'. updateUserStats (ex_store ?ok) ''host'' ?ok = Inr db'
         \<and> users db' ''host'' =
             Some (ex_profile\<lparr>totalHours := 2 + 25 / 60, profile_violations := 55,
                               sessionsCompleted := 4\<rparr>)
         \<and> map_option statsUpdatedFor (getDoc_sessions db' ''s1'') = Some (Some [''host''])"
    unfolding f s by (auto simp: or_empty_def p)
  from ok_guest u(3)
  have b: "updateUserStats (ex_store ?ok) ''guest'' ?ok = Inr (ex_store ?ok)"
    by blast
  from ko_host u(2)
  have c: "\<exists>db'. updateUserStats (ex_store ?ko) ''host'' ?ko = Inr db'
         \<and> users db' ''host'' = Some (ex_profile\<lparr>profile_violations := 390\<rparr>)
         \<and> map_option statsUpdatedFor (getDoc_sessions db' ''s1'') = Some (Some [''host''])"
    unfolding f s by (auto simp: or_empty_def p)
  from t1 t2 a b c show ?thesis by blast
qed

text \<open>
  Claim C9. \<^verbatim>\<open>updateUserStats\<close> always succeeds in some store, and a second call with the
  same user and session in that store returns it unchanged: profiles and sessions are as
  the first call left them. A call for a user who is already in the stored session's
  \<^verbatim>\<open>statsUpdatedFor\<close> changes nothing.
\<close>

theorem updateUserStats_idempotent:
  "(\<exists>db1. updateUserStats db uid s = Inr db1 \<and> updateUserStats db1 uid s = Inr db1)
   \<and> (\<forall>cur. getDoc_sessions db (session_id s) = Some cur
             \<and> uid \<in> set (or_empty (statsUpdatedFor cur))
          \<longrightarrow> updateUserStats db uid s = Inr db)"
  using updateUserStats_twice updateUserStats_noop by blast


text \<open>
  C9 on the successful example session: the first call adds the session's hours, its
  violations and one completed session; the second call, in the store the first one left,
  changes nothing.
\<close>

theorem updateUserStats_idempotent_witness:
  "\<exists>db1. updateUserStats
            (ex_store (ex_session\<lparr>status := Ended, outcome := Some Successful\<rparr>)) ''host''
            (ex_session\<lparr>status := Ended, outcome := Some Successful\<rparr>) = Inr db1
        \<and> users db1 ''host'' = Some (ex_profile\<lparr>totalHours := 2 + 25 / 60, sessionsCompleted := 4\<rparr>)
        \<and> updateUserStats db1 ''host'' (ex_session\<lparr>status := Ended, outcome := Some Successful\<rparr>)
            = Inr db1"
proof -
  let ?ok = "ex_session\<lparr>status := Ended, outcome := Some Successful\<rparr>"
  from updateUserStats_idempotent [of "ex_store ?ok" "''host''" ?ok]
  obtain db1 where 1: "updateUserStats (ex_store ?ok) ''host'' ?ok = Inr db1"
    and 2: "updateUserStats db1 ''host'' ?ok = Inr db1"
    by blast
  have g: "getDoc_sessions (ex_store ?ok) (session_id ?ok) = Some ?ok"
    by (simp add: ex_store_def getDoc_sessions_def)
  have n: "''host'' \<notin> set (or_empty (statsUpdatedFor ?ok))"
    by (simp add: ex_session_def or_empty_def)
  have u: "users (ex_store ?ok) ''host'' = Some ex_profile"
    by (simp add: ex_store_def)
  have v: "getUserTotalViolationTime (violations ?ok) ''host'' = 0"
    by (simp add: ex_session_def getUserTotalViolationTime_def)
  from updateUserStats_general [OF g n u] 1
  have "users db1 ''host'' = Some (ex_profile\<lparr>totalHours := 2 + 25 / 60, sessionsCompleted := 4\<rparr>)"
    unfolding v by (auto simp: ex_session_def ex_profile_def)
  with 1 2 show ?thesis by blast
qed

section \<open>Marathon sessions and study hours\<close>

lemma updateDoc_sessions_marathon:
  assumes "updateDoc_sessions db sid upd = Inr db'"
      and "\<And>s. isMarathon (upd s) = isMarathon s" and "\<And>s. duration (upd s) = duration s"
      and "\<forall>s \<in> set (sessions db). isMarathon s = Some True \<longrightarrow> duration s = 0"
  shows "\<forall>s \<in> set (sessions db'). isMarathon s = Some True \<longrightarrow> duration s = 0"
proof -
  from assms(1) have "sessions db' = map (\<lambda>s. if session_id s = sid then upd s else s) (sessions db)"
    by (auto simp: updateDoc_sessions_def split: option.splits)
  with assms(2-4) show ?thesis by auto
qed

lemma updateUserStats_shape:
  assumes "updateUserStats db uid sd = Inr db'"
  shows "sessions db' = sessions db
         \<or> (\<exists>db1. sessions db1 = sessions db
            \<and> updateDoc_sessions db1 (session_id sd)
                 (\<lambda>s. s\<lparr>statsUpdatedFor := Some (arrayUnion (or_empty (statsUpdatedFor s)) uid)\<rparr>)
               = Inr db')"
proof (cases "getDoc_sessions db (session_id sd)")
  case None
  with assms show ?thesis by (simp add: updateUserStats_def)
next
  case (Some cur)
  show ?thesis
  proof (cases "uid \<in> set (or_empty (statsUpdatedFor cur))")
    case True
    with Some assms show ?thesis by (simp add: updateUserStats_def)
  next
    case False
    show ?thesis
    proof (cases "users db uid")
      case None
      with Some False assms show ?thesis by (simp add: updateUserStats_def)
    next
      case (Some p)
      with \<open>getDoc_sessions db (session_id sd) = Some cur\<close> False assms
      show ?thesis
        by (cases "outcome sd = Some Successful")
           (auto simp: updateUserStats_def updateDoc_users_def Let_def)
    qed
  qed
qed

lemma step_marathon:
  assumes "step db db'"
      and inv: "\<forall>s \<in> set (sessions db). isMarathon s = Some True \<longrightarrow> duration s = 0"
  shows "\<forall>s \<in> set (sessions db'). isMarathon s = Some True \<longrightarrow> duration s = 0"
  using assms(1)
proof cases
  case (step_create random newId now host participantIds dur marathon sid)
  then show ?thesis using inv
    by (auto simp: createSession_def addDoc_sessions_def split: sum.splits)
next
  case (step_start sid now)
  then show ?thesis unfolding startSession_def
    by (rule updateDoc_sessions_marathon) (simp_all add: inv)
next
  case (step_end sid oc reason now)
  then show ?thesis unfolding endSession_def
    by (rule updateDoc_sessions_marathon) (simp_all add: inv)
next
  case (step_terminate sid why now)
  then show ?thesis unfolding terminateSession_def
    by (rule updateDoc_sessions_marathon) (simp_all add: inv)
next
  case (step_violation sid uid ty secs ts res)
  then obtain upd where "updateDoc_sessions db sid upd = Inr db'"
    and "\<And>s. isMarathon (upd s) = isMarathon s" and "\<And>s. duration (upd s) = duration s"
    unfolding addViolation_def Let_def
    by (fastforce split: sum.splits)
  then show ?thesis by (rule updateDoc_sessions_marathon) (rule inv)
next
  case (step_join code uid sid)
  show ?thesis
  proof (cases "db' = db")
    case True
    with inv show ?thesis by simp
  next
    case False
    with step_join obtain i where
      "updateDoc_sessions db i (\<lambda>d. d\<lparr>participants := arrayUnion (participants d) uid\<rparr>) = Inr db'"
      unfolding joinSessionByCode_def
      by (auto split: option.splits if_splits sum.splits)
    then show ?thesis by (rule updateDoc_sessions_marathon) (simp_all add: inv)
  qed
next
  case (step_leave sid uid)
  show ?thesis
  proof (cases "getDoc_sessions db sid")
    case None
    with step_leave inv show ?thesis by (simp add: leaveSession_def)
  next
    case (Some sessionData)
    with step_leave have
      "updateDoc_sessions db sid
         (\<lambda>s. s\<lparr>participants := filter (\<lambda>i. i \<noteq> uid) (participants sessionData)\<rparr>) = Inr db'"
      by (simp add: leaveSession_def)
    then show ?thesis by (rule updateDoc_sessions_marathon) (simp_all add: inv)
  qed
next
  case (step_cancel sid)
  then show ?thesis using inv
    by (auto simp: cancelSession_def deleteDoc_sessions_def)
next
  case (step_stats uid sessionData)
  from updateUserStats_shape[OF step_stats] show ?thesis
  proof
    assume "sessions db' = sessions db"
    with inv show ?thesis by simp
  next
    assume "\<exists>db1. sessions db1 = sessions db
            \<and> updateDoc_sessions db1 (session_id sessionData)
                 (\<lambda>s. s\<lparr>statsUpdatedFor := Some (arrayUnion (or_empty (statsUpdatedFor s)) uid)\<rparr>)
               = Inr db'"
    then obtain db1 where s1: "sessions db1 = sessions db"
      and u1: "updateDoc_sessions db1 (session_id sessionData)
             (\<lambda>s. s\<lparr>statsUpdatedFor := Some (arrayUnion (or_empty (statsUpdatedFor s)) uid)\<rparr>) = Inr db'"
      by blast
    from inv s1 have inv1: "\<forall>s \<in> set (sessions db1). isMarathon s = Some True \<longrightarrow> duration s = 0"
      by simp
    from u1 show ?thesis by (rule updateDoc_sessions_marathon) (simp_all add: inv1)
  qed
next
  case step_users
  with inv show ?thesis by simp
qed

lemma reachable_marathon:
  "reachable db \<Longrightarrow> \<forall>s \<in> set (sessions db). isMarathon s = Some True \<longrightarrow> duration s = 0"
proof (induction rule: reachable.induct)
  case reachable_empty
  show ?case by simp
next
  case (reachable_step db db')
  from step_marathon[OF reachable_step.hyps(2) reachable_step.IH] show ?case .
qed

lemma getDoc_member: "getDoc_sessions db sid = Some d \<Longrightarrow> d \<in> set (sessions db)"
  by (auto simp: getDoc_sessions_def find_Some_iff)


text \<open>
  Claim C10. A marathon session is stored with duration 0 when it is created; ending it
  from the active-session screen records the outcome successful; and in every store that
  the service can build, reconciling a user against a successful marathon session leaves
  the user's \<^verbatim>\<open>totalHours\<close> unchanged, while it adds the user's violation seconds and one
  completed session.
\<close>

theorem marathon_adds_no_hours:
  "(createSession db random newId now host participantIds dur True = Inr (sid, db1) \<longrightarrow>
      sid = newId
      \<and> (\<exists>new. sessions db1 = sessions db @ [new] \<and> session_id new = newId
               \<and> isMarathon new = Some True \<and> duration new = 0 \<and> status new = Pending))
   \<and> (\<not> hasAutoCompleted scr \<and> \<not> isCompleting scr \<and> session scr = Some m
        \<and> isMarathon m = Some True \<and> sessionId scr = Some i \<and> getDoc_sessions db i = Some d \<longrightarrow>
      (\<exists>db2. handleEndSession scr EndSessionButton db now
                = (scr\<lparr>hasAutoCompleted := True, isCompleting := True\<rparr>, db2)
            \<and> getDoc_sessions db2 i =
                Some (d\<lparr>status := Ended, endTime := Some now, outcome := Some Successful,
                        failReason := None\<rparr>)))
   \<and> (reachable db \<and> getDoc_sessions db (session_id s) = Some s \<and> isMarathon s = Some True
        \<and> outcome s = Some Successful \<and> uid \<notin> set (or_empty (statsUpdatedFor s))
        \<and> users db uid = Some p \<longrightarrow>
      (\<exists>db3 p'. updateUserStats db uid s = Inr db3 \<and> users db3 uid = Some p'
            \<and> totalHours p' = totalHours p + 0
            \<and> profile_violations p' =
                profile_violations p + getUserTotalViolationTime (violations s) uid
            \<and> sessionsCompleted p' = sessionsCompleted p + 1))"
proof (intro conjI impI)
  assume c: "createSession db random newId now host participantIds dur True = Inr (sid, db1)"
  then show "sid = newId"
    by (auto simp: createSession_def split: sum.splits)
  from c show "\<exists>new. sessions db1 = sessions db @ [new] \<and> session_id new = newId
               \<and> isMarathon new = Some True \<and> duration new = 0 \<and> status new = Pending"
    by (auto simp: createSession_def addDoc_sessions_def split: sum.splits)
next
  assume a: "\<not> hasAutoCompleted scr \<and> \<not> isCompleting scr \<and> session scr = Some m
        \<and> isMarathon m = Some True \<and> sessionId scr = Some i \<and> getDoc_sessions db i = Some d"
  then have "\<not> hasAutoCompleted scr" "\<not> isCompleting scr" "session scr = Some m"
    "sessionId scr = Some i" "getDoc_sessions db i = Some d" and mm: "isMarathon m = Some True"
    by simp_all
  with endSession_stored[of db i d Successful None now]
  show "\<exists>db2. handleEndSession scr EndSessionButton db now
                = (scr\<lparr>hasAutoCompleted := True, isCompleting := True\<rparr>, db2)
            \<and> getDoc_sessions db2 i =
                Some (d\<lparr>status := Ended, endTime := Some now, outcome := Some Successful,
                        failReason := None\<rparr>)"
    by (auto simp: handleEndSession_def Let_def or_null_def)
next
  assume a: "reachable db \<and> getDoc_sessions db (session_id s) = Some s \<and> isMarathon s = Some True
        \<and> outcome s = Some Successful \<and> uid \<notin> set (or_empty (statsUpdatedFor s))
        \<and> users db uid = Some p"
  then have r: "reachable db" and g: "getDoc_sessions db (session_id s) = Some s"
    and mm: "isMarathon s = Some True" and oc: "outcome s = Some Successful"
    and n: "uid \<notin> set (or_empty (statsUpdatedFor s))" and u: "users db uid = Some p"
    by simp_all
  from reachable_marathon[OF r] getDoc_member[OF g] mm have d0: "duration s = 0"
    by blast
  from updateUserStats_general[OF g n u] oc d0
  show "\<exists>db3 p'. updateUserStats db uid s = Inr db3 \<and> users db3 uid = Some p'
            \<and> totalHours p' = totalHours p + 0
            \<and> profile_violations p' =
                profile_violations p + getUserTotalViolationTime (violations s) uid
            \<and> sessionsCompleted p' = sessionsCompleted p + 1"
    by auto
qed


text \<open>
  C10 on a run of the service: the host's profile is created, the host creates a marathon
  session (asking for 45 minutes), starts it and ends it from the screen after 10 seconds;
  the reconciliation then keeps the 2 hours of the profile and counts a fourth session.
\<close>

theorem marathon_adds_no_hours_witness:
  "createSession \<lparr>sessions = [], users = [''host'' \<mapsto> ex_profile]\<rparr> (\<lambda>k. 0) ''m1'' 1
       ''host'' [] 45 True
     = Inr (''m1'', ex_store ex_marathon)
   \<and> (\<exists>new. sessions (ex_store ex_marathon) = [] @ [new]
          \<and> isMarathon new = Some True \<and> duration new = 0)
   \<and> getDoc_sessions
        (snd (handleEndSession
                (ex_screen (ex_marathon\<lparr>status := Active, startTime := Some 2\<rparr>) 10
                   \<lparr>sessionId := Some ''m1''\<rparr>)
                EndSessionButton
                (ex_store (ex_marathon\<lparr>status := Active, startTime := Some 2\<rparr>)) 3))
        ''m1''
      = Some (ex_marathon\<lparr>status := Ended, startTime := Some 2, endTime := Some 3,
                           outcome := Some Successful\<rparr>)
   \<and> reachable (ex_store (ex_marathon\<lparr>status := Ended, startTime := Some 2, endTime := Some 3,
                                        outcome := Some Successful\<rparr>))
   \<and> (\<exists>db3 p'. updateUserStats
                   (ex_store (ex_marathon\<lparr>status := Ended, startTime := Some 2,
                                           endTime := Some 3, outcome := Some Successful\<rparr>))
                   ''host''
                   (ex_marathon\<lparr>status := Ended, startTime := Some 2, endTime := Some 3,
                                outcome := Some Successful\<rparr>) = Inr db3
          \<and> users db3 ''host'' = Some p'
          \<and> totalHours p' = 2 \<and> profile_violations p' = 40 \<and> sessionsCompleted p' = 4)"
proof -
  let ?db0 = "\<lparr>sessions = [], users = [''host'' \<mapsto> ex_profile]\<rparr>"
  let ?act = "ex_marathon\<lparr>status := Active, startTime := Some 2\<rparr>"
  let ?end = "ex_marathon\<lparr>status := Ended, startTime := Some 2, endTime := Some 3,
                           outcome := Some Successful\<rparr>"
  let ?scr = "ex_screen ?act 10 \<lparr>sessionId := Some ''m1''\<rparr>"
  have q: "query_roomCode ?db0 ''100000'' = []"
    by (simp add: query_roomCode_def)
  have gen: "generateRoomCode ?db0 (\<lambda>k. 0) 10 0 = Inr ''100000''"
    by (subst generateRoomCode.simps) (simp add: drawCode_0 q)
  have create: "createSession ?db0 (\<lambda>k. 0) ''m1'' 1 ''host'' [] 45 True
                  = Inr (''m1'', ex_store ex_marathon)"
    by (simp add: createSession_def gen addDoc_sessions_def ex_store_def ex_marathon_def)
  have start: "startSession (ex_store ex_marathon) ''m1'' 2 = Inr (ex_store ?act)"
    by (simp add: startSession_def updateDoc_sessions_def getDoc_sessions_def ex_store_def
        ex_marathon_def)
  have "end": "endSession (ex_store ?act) ''m1'' Successful None 3 = Inr (ex_store ?end)"
    by (simp add: endSession_def updateDoc_sessions_def getDoc_sessions_def ex_store_def
        ex_marathon_def or_null_def)
  have r0: "reachable ?db0"
    by (rule reachable_step[OF reachable_empty]) (simp add: step_users)
  have r1: "reachable (ex_store ex_marathon)"
    by (rule reachable_step[OF r0 step_create[OF create]])
  have r2: "reachable (ex_store ?act)"
    by (rule reachable_step[OF r1 step_start[OF start]])
  have r3: "reachable (ex_store ?end)"
    by (rule reachable_step[OF r2 step_end[OF "end"]])
  from marathon_adds_no_hours
         [where db = ?db0 and random = "\<lambda>k. 0" and newId = "''m1''" and now = 1 and host = "''host''"
            and participantIds = "[]" and dur = 45 and sid = "''m1''"
            and ?db1.0 = "ex_store ex_marathon", THEN conjunct1] create
  have d0: "\<exists>new. sessions (ex_store ex_marathon) = [] @ [new]
          \<and> isMarathon new = Some True \<and> duration new = 0"
    by auto
  have scr: "\<not> hasAutoCompleted ?scr" "\<not> isCompleting ?scr" "session ?scr = Some ?act"
    "isMarathon ?act = Some True" "sessionId ?scr = Some ''m1''"
    "getDoc_sessions (ex_store ?act) ''m1'' = Some ?act"
    by (simp_all add: ex_screen_def ex_marathon_def ex_store_def getDoc_sessions_def)
  from marathon_adds_no_hours
         [where db = "ex_store ?act" and now = 3 and scr = ?scr and m = ?act and i = "''m1''"
            and d = ?act] scr
  obtain db2 where "handleEndSession ?scr EndSessionButton (ex_store ?act) 3
                      = (?scr\<lparr>hasAutoCompleted := True, isCompleting := True\<rparr>, db2)"
    and "getDoc_sessions db2 ''m1'' =
           Some (?act\<lparr>status := Ended, endTime := Some 3, outcome := Some Successful,
                       failReason := None\<rparr>)"
    by blast
  then have ended: "getDoc_sessions (snd (handleEndSession ?scr EndSessionButton (ex_store ?act) 3))
                      ''m1'' = Some ?end"
    by (simp add: ex_marathon_def)
  have rec: "getDoc_sessions (ex_store ?end) (session_id ?end) = Some ?end"
    "isMarathon ?end = Some True" "outcome ?end = Some Successful"
    "''host'' \<notin> set (or_empty (statsUpdatedFor ?end))"
    "users (ex_store ?end) ''host'' = Some ex_profile"
    by (simp_all add: ex_marathon_def ex_store_def getDoc_sessions_def or_empty_def)
  have v: "getUserTotalViolationTime (violations ?end) ''host'' = 0"
    by (simp add: ex_marathon_def getUserTotalViolationTime_def)
  from marathon_adds_no_hours
         [where db = "ex_store ?end" and s = ?end and uid = "''host''" and p = ex_profile] r3 rec
  have "\<exists>db3 p'. updateUserStats (ex_store ?end) ''host'' ?end = Inr db3
          \<and> users db3 ''host'' = Some p'
          \<and> totalHours p' = totalHours ex_profile + 0
          \<and> profile_violations p' =
               profile_violations ex_profile + getUserTotalViolationTime (violations ?end) ''host''
          \<and> sessionsCompleted p' = sessionsCompleted ex_profile + 1"
    by blast
  then have stats: "\<exists>db3 p'. updateUserStats (ex_store ?end) ''host'' ?end = Inr db3
          \<and> users db3 ''host'' = Some p'
          \<and> totalHours p' = 2 \<and> profile_violations p' = 40 \<and> sessionsCompleted p' = 4"
    unfolding v by (simp add: ex_profile_def)
  from create d0 ended r3 stats show ?thesis by blast
qed

end
